theory Spec2Isabelle
  imports Complex_Main "HOL-Library.Sublist" "HOL-Library.Word"
begin

section \<open>The report renderer of \<^verbatim>\<open>src/app/api/generate-pdf/route.ts\<close>\<close>

text \<open>
  The route handler \<^verbatim>\<open>POST\<close> receives a JSON body, checks that a student name is there,
  builds an HTML report with \<^verbatim>\<open>generateHTMLContent\<close>, drives a headless browser to print
  it to PDF and answers with the PDF, with a simplified HTML page when printing fails, or
  with an error.

  Conventions of the embedding.
  \<^item> A JavaScript string is the list of the bytes of its UTF-8 encoding (\<^typ>\<open>string\<close>); the
    model covers well-formed strings (no lone surrogates).
  \<^item> A JavaScript number that \<^verbatim>\<open>JSON.parse\<close> can produce is a finite double, taken with its exact
    rational value, or an infinity (a literal such as \<^verbatim>\<open>1e999\<close>). \<^verbatim>\<open>NaN\<close> cannot come out of JSON.
  \<^item> \<^verbatim>\<open>undefined\<close> (a property that is not there) is \<^term>\<open>None\<close>.
  \<^item> What the host runtime computes and the source does not contain is a field of the record
    \<open>runtime\<close>: the date string, the digits of a number outside the safe integers, and
    Unicode lower-casing of a string that is not pure ASCII.
\<close>

subsection \<open>Numbers\<close>

datatype number = Num rat | PosInf | NegInf

text \<open>\<^verbatim>\<open>ToBoolean\<close> of a number: only zero is falsy.\<close>

fun truthy_number :: "number \<Rightarrow> bool" where
  "truthy_number (Num q) = (q \<noteq> 0)"
| "truthy_number PosInf = True"
| "truthy_number NegInf = True"

text \<open>
  \<^verbatim>\<open>Math.round\<close>: the nearest integer, a tie going towards \<open>+\<infinity>\<close>; the infinities are
  returned as they are.
\<close>

fun Math_round :: "number \<Rightarrow> number" where
  "Math_round (Num q) = Num (of_int \<lfloor>q + 1 / 2\<rfloor>)"
| "Math_round PosInf = PosInf"
| "Math_round NegInf = NegInf"

text \<open>The comparison \<^verbatim>\<open>x >= c\<close> of a number with a finite constant.\<close>

fun ge :: "number \<Rightarrow> rat \<Rightarrow> bool" where
  "ge (Num q) c = (c \<le> q)"
| "ge PosInf c = True"
| "ge NegInf c = False"

text \<open>Decimal digits of a natural number, and of an integer with its sign.\<close>

fun decimal :: "nat \<Rightarrow> string" where
  "decimal n =
     (if n < 10 then [char_of (48 + n)]
      else decimal (n div 10) @ [char_of (48 + n mod 10)])"

declare decimal.simps [simp del]

definition int_toString :: "int \<Rightarrow> string" where
  "int_toString i = (if i < 0 then ''-'' @ decimal (nat (- i)) else decimal (nat i))"

record runtime =
  currentDate :: string
  shortest :: "rat \<Rightarrow> string"
  unicodeLower :: "string \<Rightarrow> string"

text \<open>
  A safe integer is an integral value of magnitude at most \<open>2^53\<close>. \<^verbatim>\<open>Number::toString\<close>
  prints a safe integer as its decimal digits (minus zero as \<^verbatim>\<open>0\<close>); for any other finite value
  it prints the shortest digit string that reads back as the same double, which is the host's
  \<open>shortest\<close>.
\<close>

definition safe_integer :: "rat \<Rightarrow> bool" where
  "safe_integer q \<longleftrightarrow> of_int \<lfloor>q\<rfloor> = q \<and> \<bar>q\<bar> \<le> 2 ^ 53"

fun Number_toString :: "runtime \<Rightarrow> number \<Rightarrow> string" where
  "Number_toString rt (Num q) = (if safe_integer q then int_toString \<lfloor>q\<rfloor> else shortest rt q)"
| "Number_toString rt PosInf = ''Infinity''"
| "Number_toString rt NegInf = ''-Infinity''"

subsection \<open>Optional fields and the operator \<^verbatim>\<open>||\<close>\<close>

text \<open>
  \<^verbatim>\<open>a || b\<close> is \<^verbatim>\<open>a\<close> when \<^verbatim>\<open>a\<close> is truthy and \<^verbatim>\<open>b\<close> otherwise. A string is truthy when it is
  not empty; \<^verbatim>\<open>undefined\<close> is falsy.
\<close>

definition truthy_string :: "string option \<Rightarrow> bool" where
  "truthy_string a = (case a of Some s \<Rightarrow> s \<noteq> [] | None \<Rightarrow> False)"

definition or_field :: "string option \<Rightarrow> string option \<Rightarrow> string option" where
  "or_field a b = (if truthy_string a then a else b)"

definition or_default :: "string option \<Rightarrow> string \<Rightarrow> string" where
  "or_default a d = (case a of Some s \<Rightarrow> if s \<noteq> [] then s else d | None \<Rightarrow> d)"

definition or_number :: "number option \<Rightarrow> number \<Rightarrow> number" where
  "or_number a d = (case a of Some n \<Rightarrow> if truthy_number n then n else d | None \<Rightarrow> d)"

text \<open>A value interpolated in a template literal: \<^verbatim>\<open>undefined\<close> prints as that word.\<close>

definition template_string :: "string option \<Rightarrow> string" where
  "template_string a = (case a of Some s \<Rightarrow> s | None \<Rightarrow> ''undefined'')"

subsection \<open>The request body\<close>

text \<open>
  The fields the handler reads, with the types of the data model: every one may be missing.
  \<open>Scores\<close> maps a category name to its percentage. A field that holds \<^verbatim>\<open>null\<close> behaves in
  every read of the handler like a field that is not there, and is \<^term>\<open>None\<close> as well.
\<close>

record results =
  Student_Name :: "string option"
  studentName :: "string option"
  Scores :: "(string \<Rightarrow> number option) option"
  Overall_Readiness_Index :: "number option"
  Readiness_Level :: "string option"
  Strengths :: "string option"
  Gaps :: "string option"
  Recommendations :: "string option"
  Country_Fit_Top_3 :: "string list option"

subsection \<open>Score cards\<close>

text \<open>The constant \<^verbatim>\<open>barClass\<close> of \<^verbatim>\<open>generateScoreCard\<close>, as a function of \<^verbatim>\<open>percentage\<close>.\<close>

definition barClass :: "number \<Rightarrow> string" where
  "barClass percentage =
     (if ge percentage 80 then ''excellent''
      else if ge percentage 60 then ''good''
      else if ge percentage 40 then ''average''
      else ''weak'')"

definition generateScoreCard :: "runtime \<Rightarrow> string \<Rightarrow> number \<Rightarrow> string \<Rightarrow> string" where
  \<open>generateScoreCard rt label score weight =
    (let percentage = Math_round score in
     ''\<newline>'' @
     ''      '' @ ''<div class="score-card">\<newline>'' @
     ''        '' @ ''<h4>'' @
     label @
     ''</h4>\<newline>'' @
     ''        '' @ ''<div class="score-value">'' @
     Number_toString rt percentage @
     ''%</div>\<newline>'' @
     ''        '' @ ''<div class="score-bar">\<newline>'' @
     ''          '' @ ''<div class="score-fill '' @
     barClass percentage @
     ''" style="width: '' @
     Number_toString rt percentage @
     ''%"></div>\<newline>'' @
     ''        '' @ ''</div>\<newline>'' @
     ''        '' @ ''<div style="font-size: 0.7em; color: #666; margin-top: 4px;">Weight: '' @
     weight @
     ''</div>\<newline>'' @
     ''      '' @ ''</div>\<newline>'' @
     ''    '')\<close>

subsection \<open>Country cards\<close>

text \<open>
  The table \<^verbatim>\<open>countryInfo\<close> of \<^verbatim>\<open>generateCountryCard\<close>: each country with its flag (two regional
  indicator symbols, here in UTF-8).
\<close>

definition countryInfo :: "(string \<times> string) list" where
  "countryInfo =
   [(''Singapore'', [CHR 0xF0, CHR 0x9F, CHR 0x87, CHR 0xB8, CHR 0xF0, CHR 0x9F, CHR 0x87, CHR 0xAC]),
    (''Ireland'', [CHR 0xF0, CHR 0x9F, CHR 0x87, CHR 0xAE, CHR 0xF0, CHR 0x9F, CHR 0x87, CHR 0xAA]),
    (''Netherlands'', [CHR 0xF0, CHR 0x9F, CHR 0x87, CHR 0xB3, CHR 0xF0, CHR 0x9F, CHR 0x87, CHR 0xB1]),
    (''Canada'', [CHR 0xF0, CHR 0x9F, CHR 0x87, CHR 0xA8, CHR 0xF0, CHR 0x9F, CHR 0x87, CHR 0xA6]),
    (''Australia'', [CHR 0xF0, CHR 0x9F, CHR 0x87, CHR 0xA6, CHR 0xF0, CHR 0x9F, CHR 0x87, CHR 0xBA]),
    (''United Kingdom'', [CHR 0xF0, CHR 0x9F, CHR 0x87, CHR 0xAC, CHR 0xF0, CHR 0x9F, CHR 0x87, CHR 0xA7]),
    (''Germany'', [CHR 0xF0, CHR 0x9F, CHR 0x87, CHR 0xA9, CHR 0xF0, CHR 0x9F, CHR 0x87, CHR 0xAA]),
    (''United States'', [CHR 0xF0, CHR 0x9F, CHR 0x87, CHR 0xBA, CHR 0xF0, CHR 0x9F, CHR 0x87, CHR 0xB8]),
    (''India'', [CHR 0xF0, CHR 0x9F, CHR 0x87, CHR 0xAE, CHR 0xF0, CHR 0x9F, CHR 0x87, CHR 0xB3]),
    (''United Arab Emirates'', [CHR 0xF0, CHR 0x9F, CHR 0x87, CHR 0xA6, CHR 0xF0, CHR 0x9F, CHR 0x87, CHR 0xAA])]"

text \<open>
  \<^verbatim>\<open>countryInfo\<close> is an object literal, so the read \<^verbatim>\<open>countryInfo[country]\<close> also finds the
  members every object inherits from \<^verbatim>\<open>Object.prototype\<close>. These are functions or objects,
  hence truthy, and have no property \<^verbatim>\<open>flag\<close>.
\<close>

definition Object_prototype :: "string list" where
  "Object_prototype =
   [''constructor'', ''__defineGetter__'', ''__defineSetter__'', ''hasOwnProperty'',
    ''__lookupGetter__'', ''__lookupSetter__'', ''isPrototypeOf'', ''propertyIsEnumerable'',
    ''toString'', ''valueOf'', ''__proto__'', ''toLocaleString'']"

datatype member = Entry string | Inherited

definition countryInfo_get :: "string \<Rightarrow> member option" where
  "countryInfo_get country =
     (case map_of countryInfo country of
        Some f \<Rightarrow> Some (Entry f)
      | None \<Rightarrow> if country \<in> set Object_prototype then Some Inherited else None)"

text \<open>The property \<^verbatim>\<open>flag\<close> of what was read.\<close>

fun flag :: "member \<Rightarrow> string option" where
  "flag (Entry f) = Some f"
| "flag Inherited = None"

definition globe :: string where
  "globe = [CHR 0xF0, CHR 0x9F, CHR 0x8C, CHR 0x8D]"

definition generateCountryCard :: "runtime \<Rightarrow> string \<Rightarrow> nat \<Rightarrow> string" where
  \<open>generateCountryCard rt country index =
    (let info = (case countryInfo_get country of Some m \<Rightarrow> m | None \<Rightarrow> Entry globe) in
     ''\<newline>'' @
     ''      '' @ ''<div class="country-card">\<newline>'' @
     ''        '' @ ''<div class="country-rank">#'' @
     Number_toString rt (Num (of_nat index + 1)) @
     ''</div>\<newline>'' @
     ''        '' @ ''<div class="country-flag">'' @
     template_string (flag info) @
     ''</div>\<newline>'' @
     ''        '' @ ''<div class="country-name">'' @
     country @
     ''</div>\<newline>'' @
     ''        '' @ ''<div class="country-score">'' @
     Number_toString rt (Math_round (Num (100 - of_nat index * 15))) @
     ''% Match</div>\<newline>'' @
     ''      '' @ ''</div>\<newline>'' @
     ''    '')\<close>

subsection \<open>The page\<close>

text \<open>
  The template literal that \<^verbatim>\<open>generateHTMLContent\<close> returns, cut at its interpolations. The
  constants below are the fixed text between them, byte for byte.
\<close>

definition document_head :: string where
  \<open>document_head =
   ''\<newline>'' @
   ''    <!DOCTYPE html>\<newline>'' @
   ''    <html lang="en">\<newline>'' @
   ''    <head>\<newline>'' @
   ''        <meta charset="UTF-8">\<newline>'' @
   ''        <meta name="viewport" content="width=device-width, initial-scale=1.0">\<newline>'' @
   ''        <title>D-Vivid Consultant - Study Abroad Assessment Report</title>\<newline>'' @
   ''        <style>\<newline>'' @
   ''            @import url(\'https://fonts.googleapis.com/css2?family=Poppins:wght@300;400;500;600;700;800&display=swap\');\<newline>'' @
   ''            @import url(\'https://fonts.googleapis.com/css2?family=Montserrat:wght@400;500;600;700;800&display=swap\');\<newline>'' @
   ''\<newline>'' @
   ''            * {\<newline>'' @
   ''                margin: 0;\<newline>'' @
   ''                padding: 0;\<newline>'' @
   ''                box-sizing: border-box;\<newline>'' @
   ''            }\<newline>'' @
   ''            \<newline>'' @
   ''            body {\<newline>'' @
   ''                font-family: \'Poppins\', sans-serif;\<newline>'' @
   ''                line-height: 1.4;\<newline>'' @
   ''                color: #333;\<newline>'' @
   ''                background: #ffffff;\<newline>'' @
   ''                margin: 0;\<newline>'' @
   ''                padding: 0;\<newline>'' @
   ''                font-size: 12px;\<newline>'' @
   ''            }\<newline>'' @
   ''            \<newline>'' @
   ''            .page {\<newline>'' @
   ''                width: 210mm;\<newline>'' @
   ''                min-height: 297mm;\<newline>'' @
   ''                margin: 0 auto;\<newline>'' @
   ''                background: #ffffff;\<newline>'' @
   ''                position: relative;\<newline>'' @
   ''                padding: 0;\<newline>'' @
   ''            }\<newline>'' @
   ''            \<newline>'' @
   ''            .header {\<newline>'' @
   ''                background: linear-gradient(135deg, #003B8C 0%, #5BE49B 100%);\<newline>'' @
   ''                color: white;\<newline>'' @
   ''                padding: 15px 20px;\<newline>'' @
   ''                text-align: center;\<newline>'' @
   ''                position: relative;\<newline>'' @
   ''                overflow: hidden;\<newline>'' @
   ''                height: 80px;\<newline>'' @
   ''            }\<newline>'' @
   ''            \<newline>'' @
   ''            .header-content {\<newline>'' @
   ''                display: flex;\<newline>'' @
   ''                align-items: center;\<newline>'' @
   ''                justify-content: space-between;\<newline>'' @
   ''                height: 100%;\<newline>'' @
   ''            }\<newline>'' @
   ''            \<newline>'' @
   ''            .logo-section {\<newline>'' @
   ''                display: flex;\<newline>'' @
   ''                align-items: center;\<newline>'' @
   ''                gap: 15px;\<newline>'' @
   ''            }\<newline>'' @
   ''            \<newline>'' @
   ''            .logo {\<newline>'' @
   ''                width: 50px;\<newline>'' @
   ''                height: 50px;\<newline>'' @
   ''                background: white;\<newline>'' @
   ''                border-radius: 50%;\<newline>'' @
   ''                display: flex;\<newline>'' @
   ''                align-items: center;\<newline>'' @
   ''                justify-content: center;\<newline>'' @
   ''                box-shadow: 0 4px 12px rgba(0,0,0,0.3);\<newline>'' @
   ''            }\<newline>'' @
   ''            \<newline>'' @
   ''            .logo img {\<newline>'' @
   ''                max-width: 80%;\<newline>'' @
   ''                max-height: 80%;\<newline>'' @
   ''            }\<newline>'' @
   ''            \<newline>'' @
   ''            .company-info h1 {\<newline>'' @
   ''                font-family: \'Montserrat\', sans-serif;\<newline>'' @
   ''                font-size: 1.8em;\<newline>'' @
   ''                font-weight: 800;\<newline>'' @
   ''                margin: 0;\<newline>'' @
   ''                text-shadow: 1px 1px 2px rgba(0,0,0,0.3);\<newline>'' @
   ''            }\<newline>'' @
   ''            \<newline>'' @
   ''            .company-info p {\<newline>'' @
   ''                font-size: 0.9em;\<newline>'' @
   ''                opacity: 0.95;\<newline>'' @
   ''                margin: 0;\<newline>'' @
   ''                font-weight: 500;\<newline>'' @
   ''            }\<newline>'' @
   ''            \<newline>'' @
   ''            .report-title {\<newline>'' @
   ''                text-align: center;\<newline>'' @
   ''                flex: 1;\<newline>'' @
   ''            }\<newline>'' @
   ''            \<newline>'' @
   ''            .report-title h2 {\<newline>'' @
   ''                font-size: 1.4em;\<newline>'' @
   ''                font-weight: 700;\<newline>'' @
   ''                margin: 0;\<newline>'' @
   ''            }\<newline>'' @
   ''            \<newline>'' @
   ''            .report-title p {\<newline>'' @
   ''                font-size: 0.8em;\<newline>'' @
   ''                opacity: 0.9;\<newline>'' @
   ''                margin: 2px 0 0 0;\<newline>'' @
   ''            }\<newline>'' @
   ''            \<newline>'' @
   ''            .footer {\<newline>'' @
   ''                position: absolute;\<newline>'' @
   ''                bottom: 0;\<newline>'' @
   ''                left: 0;\<newline>'' @
   ''                right: 0;\<newline>'' @
   ''                background: linear-gradient(135deg, #003B8C 0%, #5BE49B 100%);\<newline>'' @
   ''                color: white;\<newline>'' @
   ''                padding: 8px 20px;\<newline>'' @
   ''                text-align: center;\<newline>'' @
   ''                font-size: 0.8em;\<newline>'' @
   ''                height: 30px;\<newline>'' @
   ''                display: flex;\<newline>'' @
   ''                align-items: center;\<newline>'' @
   ''                justify-content: space-between;\<newline>'' @
   ''            }\<newline>'' @
   ''            \<newline>'' @
   ''            .footer-logo {\<newline>'' @
   ''                width: 20px;\<newline>'' @
   ''                height: 20px;\<newline>'' @
   ''                background: white;\<newline>'' @
   ''                border-radius: 50%;\<newline>'' @
   ''                display: inline-flex;\<newline>'' @
   ''                align-items: center;\<newline>'' @
   ''                justify-content: center;\<newline>'' @
   ''                margin-right: 8px;\<newline>'' @
   ''            }\<newline>'' @
   ''            \<newline>'' @
   ''            .footer-logo img {\<newline>'' @
   ''                max-width: 70%;\<newline>'' @
   ''                max-height: 70%;\<newline>'' @
   ''            }\<newline>'' @
   ''            \<newline>'' @
   ''            .content {\<newline>'' @
   ''                padding: 20px;\<newline>'' @
   ''                min-height: calc(297mm - 110px);\<newline>'' @
   ''                display: flex;\<newline>'' @
   ''                flex-direction: column;\<newline>'' @
   ''                gap: 15px;\<newline>'' @
   ''            }\<newline>'' @
   ''            \<newline>'' @
   ''            .student-info {\<newline>'' @
   ''                display: grid;\<newline>'' @
   ''                grid-template-columns: 1fr 1fr;\<newline>'' @
   ''                gap: 15px;\<newline>'' @
   ''                margin-bottom: 15px;\<newline>'' @
   ''            }\<newline>'' @
   ''            \<newline>'' @
   ''            .info-item {\<newline>'' @
   ''                background: linear-gradient(135deg, #f8f9fa, #e9ecef);\<newline>'' @
   ''                padding: 12px;\<newline>'' @
   ''                border-radius: 8px;\<newline>'' @
   ''                border-left: 4px solid #5BE49B;\<newline>'' @
   ''            }\<newline>'' @
   ''            \<newline>'' @
   ''            .info-label {\<newline>'' @
   ''                font-weight: 700;\<newline>'' @
   ''                color: #666;\<newline>'' @
   ''                margin-bottom: 4px;\<newline>'' @
   ''                font-size: 0.8em;\<newline>'' @
   ''                text-transform: uppercase;\<newline>'' @
   ''                letter-spacing: 0.5px;\<newline>'' @
   ''            }\<newline>'' @
   ''            \<newline>'' @
   ''            .info-value {\<newline>'' @
   ''                font-size: 1.1em;\<newline>'' @
   ''                font-weight: 800;\<newline>'' @
   ''                color: #003B8C;\<newline>'' @
   ''            }\<newline>'' @
   ''            \<newline>'' @
   ''            .overall-score {\<newline>'' @
   ''                text-align: center;\<newline>'' @
   ''                margin: 15px 0;\<newline>'' @
   ''                padding: 20px;\<newline>'' @
   ''                background: linear-gradient(45deg, #003B8C, #5BE49B);\<newline>'' @
   ''                color: white;\<newline>'' @
   ''                border-radius: 10px;\<newline>'' @
   ''            }\<newline>'' @
   ''            \<newline>'' @
   ''            .overall-score h3 {\<newline>'' @
   ''                font-size: 2.5em;\<newline>'' @
   ''                margin-bottom: 8px;\<newline>'' @
   ''                font-weight: 800;\<newline>'' @
   ''            }\<newline>'' @
   ''            \<newline>'' @
   ''            .overall-score p {\<newline>'' @
   ''                font-size: 1.2em;\<newline>'' @
   ''                opacity: 0.95;\<newline>'' @
   ''                font-weight: 600;\<newline>'' @
   ''            }\<newline>'' @
   ''            \<newline>'' @
   ''            .scores-grid {\<newline>'' @
   ''                display: grid;\<newline>'' @
   ''                grid-template-columns: repeat(3, 1fr);\<newline>'' @
   ''                gap: 12px;\<newline>'' @
   ''                margin: 15px 0;\<newline>'' @
   ''            }\<newline>'' @
   ''            \<newline>'' @
   ''            .score-card {\<newline>'' @
   ''                background: #ffffff;\<newline>'' @
   ''                padding: 15px;\<newline>'' @
   ''                border-radius: 10px;\<newline>'' @
   ''                border: 2px solid #e0e0e0;\<newline>'' @
   ''                text-align: center;\<newline>'' @
   ''            }\<newline>'' @
   ''            \<newline>'' @
   ''            .score-card h4 {\<newline>'' @
   ''                font-size: 1em;\<newline>'' @
   ''                color: #003B8C;\<newline>'' @
   ''                font-weight: 700;\<newline>'' @
   ''                margin-bottom: 8px;\<newline>'' @
   ''            }\<newline>'' @
   ''            \<newline>'' @
   ''            .score-value {\<newline>'' @
   ''                font-size: 2em;\<newline>'' @
   ''                font-weight: 800;\<newline>'' @
   ''                color: #003B8C;\<newline>'' @
   ''                margin-bottom: 5px;\<newline>'' @
   ''            }\<newline>'' @
   ''            \<newline>'' @
   ''            .score-bar {\<newline>'' @
   ''                height: 8px;\<newline>'' @
   ''                background: #e9ecef;\<newline>'' @
   ''                border-radius: 4px;\<newline>'' @
   ''                overflow: hidden;\<newline>'' @
   ''                margin-bottom: 5px;\<newline>'' @
   ''            }\<newline>'' @
   ''            \<newline>'' @
   ''            .score-fill {\<newline>'' @
   ''                height: 100%;\<newline>'' @
   ''                border-radius: 4px;\<newline>'' @
   ''                transition: width 0.3s ease;\<newline>'' @
   ''            }\<newline>'' @
   ''            \<newline>'' @
   ''            .score-fill.excellent { background: linear-gradient(90deg, #22C55E, #16A34A); }\<newline>'' @
   ''            .score-fill.good { background: linear-gradient(90deg, #3B82F6, #2563EB); }\<newline>'' @
   ''            .score-fill.average { background: linear-gradient(90deg, #F59E0B, #D97706); }\<newline>'' @
   ''            .score-fill.weak { background: linear-gradient(90deg, #EF4444, #DC2626); }\<newline>'' @
   ''            \<newline>'' @
   ''            .analysis-section {\<newline>'' @
   ''                background: #f8f9fa;\<newline>'' @
   ''                padding: 15px;\<newline>'' @
   ''                border-radius: 8px;\<newline>'' @
   ''                border-left: 4px solid #003B8C;\<newline>'' @
   ''                margin: 10px 0;\<newline>'' @
   ''            }\<newline>'' @
   ''            \<newline>'' @
   ''            .analysis-section h4 {\<newline>'' @
   ''                font-size: 1.1em;\<newline>'' @
   ''                color: #003B8C;\<newline>'' @
   ''                margin-bottom: 8px;\<newline>'' @
   ''                font-weight: 700;\<newline>'' @
   ''            }\<newline>'' @
   ''            \<newline>'' @
   ''            .analysis-section p {\<newline>'' @
   ''                line-height: 1.5;\<newline>'' @
   ''                color: #555;\<newline>'' @
   ''                font-size: 0.9em;\<newline>'' @
   ''            }\<newline>'' @
   ''            \<newline>'' @
   ''            .country-fit {\<newline>'' @
   ''                display: grid;\<newline>'' @
   ''                grid-template-columns: repeat(3, 1fr);\<newline>'' @
   ''                gap: 12px;\<newline>'' @
   ''                margin: 15px 0;\<newline>'' @
   ''            }\<newline>'' @
   ''            \<newline>'' @
   ''            .country-card {\<newline>'' @
   ''                background: linear-gradient(135deg, #f8f9fa, #e9ecef);\<newline>'' @
   ''                padding: 15px;\<newline>'' @
   ''                border-radius: 10px;\<newline>'' @
   ''                text-align: center;\<newline>'' @
   ''                border: 2px solid #e0e0e0;\<newline>'' @
   ''            }\<newline>'' @
   ''            \<newline>'' @
   ''            .country-rank {\<newline>'' @
   ''                background: linear-gradient(45deg, #003B8C, #5BE49B);\<newline>'' @
   ''                color: white;\<newline>'' @
   ''                width: 30px;\<newline>'' @
   ''                height: 30px;\<newline>'' @
   ''                border-radius: 50%;\<newline>'' @
   ''                display: flex;\<newline>'' @
   ''                align-items: center;\<newline>'' @
   ''                justify-content: center;\<newline>'' @
   ''                margin: 0 auto 8px auto;\<newline>'' @
   ''                font-weight: 800;\<newline>'' @
   ''                font-size: 0.9em;\<newline>'' @
   ''            }\<newline>'' @
   ''            \<newline>'' @
   ''            .country-flag {\<newline>'' @
   ''                font-size: 1.5em;\<newline>'' @
   ''                margin-bottom: 5px;\<newline>'' @
   ''            }\<newline>'' @
   ''            \<newline>'' @
   ''            .country-name {\<newline>'' @
   ''                font-size: 1em;\<newline>'' @
   ''                font-weight: 700;\<newline>'' @
   ''                color: #003B8C;\<newline>'' @
   ''                margin-bottom: 5px;\<newline>'' @
   ''            }\<newline>'' @
   ''            \<newline>'' @
   ''            .country-score {\<newline>'' @
   ''                background: linear-gradient(45deg, #5BE49B, #4ade80);\<newline>'' @
   ''                color: white;\<newline>'' @
   ''                padding: 4px 8px;\<newline>'' @
   ''                border-radius: 6px;\<newline>'' @
   ''                font-weight: 700;\<newline>'' @
   ''                font-size: 0.8em;\<newline>'' @
   ''            }\<newline>'' @
   ''            \<newline>'' @
   ''            @media print {\<newline>'' @
   ''                body { -webkit-print-color-adjust: exact; print-color-adjust: exact; }\<newline>'' @
   ''                .page { box-shadow: none; border: none; }\<newline>'' @
   ''                .header, .footer { background-color: #003B8C !important; }\<newline>'' @
   ''            }\<newline>'' @
   ''        </style>\<newline>'' @
   ''    </head>\<newline>''\<close>

definition page_header :: string where
  \<open>page_header =
   ''    <body>\<newline>'' @
   ''        <div class="page">\<newline>'' @
   ''            <div class="header">\<newline>'' @
   ''                <div class="header-content">\<newline>'' @
   ''                    <div class="logo-section">\<newline>'' @
   ''                        <div class="logo">\<newline>'' @
   ''                            <img src="https://iili.io/Jp021xX.png" alt="D-Vivid Logo"/>\<newline>'' @
   ''                        </div>\<newline>'' @
   ''                        <div class="company-info">\<newline>'' @
   ''                            <h1>D-Vivid Consultant</h1>\<newline>'' @
   ''                            <p>Strategic Counselling Circle</p>\<newline>'' @
   ''                        </div>\<newline>'' @
   ''                    </div>\<newline>'' @
   ''                    <div class="report-title">\<newline>'' @
   ''                        <h2>Study Abroad Assessment Report</h2>\<newline>'' @
   ''                        <p>Comprehensive Readiness Index (CRI)</p>\<newline>'' @
   ''                    </div>\<newline>'' @
   ''                </div>\<newline>'' @
   ''            </div>\<newline>'' @
   ''            \<newline>'' @
   ''            <div class="content">\<newline>'' @
   ''                <div class="student-info">\<newline>'' @
   ''                    <div class="info-item">\<newline>'' @
   ''                        <div class="info-label">Student Name</div>\<newline>'' @
   ''                        <div class="info-value">''\<close>

definition after_studentName :: string where
  \<open>after_studentName =
   ''</div>\<newline>'' @
   ''                    </div>\<newline>'' @
   ''                    <div class="info-item">\<newline>'' @
   ''                        <div class="info-label">Assessment Date</div>\<newline>'' @
   ''                        <div class="info-value">''\<close>

definition after_assessment_date :: string where
  \<open>after_assessment_date =
   ''</div>\<newline>'' @
   ''                    </div>\<newline>'' @
   ''                </div>\<newline>'' @
   ''                \<newline>'' @
   ''                <div class="overall-score">\<newline>'' @
   ''                    <h3>''\<close>

definition after_overallIndex :: string where
  \<open>after_overallIndex =
   ''%</h3>\<newline>'' @
   ''                    <p>Overall Readiness Index: ''\<close>

definition before_scores :: string where
  \<open>before_scores =
   ''</p>\<newline>'' @
   ''                </div>\<newline>'' @
   ''                \<newline>'' @
   ''                <div class="scores-grid">\<newline>'' @
   ''                    ''\<close>

definition between_scores :: string where
  \<open>between_scores =
   ''\<newline>'' @
   ''                    ''\<close>

definition after_scores :: string where
  \<open>after_scores =
   ''\<newline>'' @
   ''                </div>\<newline>'' @
   ''                \<newline>'' @
   ''                <div class="analysis-section">\<newline>'' @
   ''                    <h4>'' @
   [CHR 0xF0, CHR 0x9F, CHR 0x92, CHR 0xAA] @
   '' Key Strengths</h4>\<newline>'' @
   ''                    <p>''\<close>

definition after_strengths :: string where
  \<open>after_strengths =
   ''</p>\<newline>'' @
   ''                </div>\<newline>'' @
   ''                \<newline>'' @
   ''                <div class="analysis-section">\<newline>'' @
   ''                    <h4>'' @
   [CHR 0xE2, CHR 0x9A, CHR 0xA0, CHR 0xEF, CHR 0xB8, CHR 0x8F] @
   '' Areas for Development</h4>\<newline>'' @
   ''                    <p>''\<close>

definition after_gaps :: string where
  \<open>after_gaps =
   ''</p>\<newline>'' @
   ''                </div>\<newline>'' @
   ''                \<newline>'' @
   ''                <div class="analysis-section">\<newline>'' @
   ''                    <h4>'' @
   [CHR 0xF0, CHR 0x9F, CHR 0x8E, CHR 0xAF] @
   '' Strategic Recommendations</h4>\<newline>'' @
   ''                    <p>''\<close>

definition after_recommendations :: string where
  \<open>after_recommendations =
   ''</p>\<newline>'' @
   ''                </div>\<newline>'' @
   ''                \<newline>'' @
   ''                ''\<close>

definition country_fit_open :: string where
  \<open>country_fit_open =
   ''\<newline>'' @
   ''                <div class="country-fit">\<newline>'' @
   ''                    <h4 style="grid-column: 1/-1; text-align: center; color: #003B8C; margin-bottom: 10px;">'' @
   [CHR 0xF0, CHR 0x9F, CHR 0x8C, CHR 0x8D] @
   '' Recommended Study Destinations</h4>\<newline>'' @
   ''                    ''\<close>

definition country_fit_close :: string where
  \<open>country_fit_close =
   ''\<newline>'' @
   ''                </div>\<newline>'' @
   ''                ''\<close>

definition after_country_fit :: string where
  \<open>after_country_fit =
   ''\<newline>'' @
   ''            </div>\<newline>'' @
   ''            \<newline>'' @
   ''            <div class="footer">\<newline>'' @
   ''                <div style="display: flex; align-items: center;">\<newline>'' @
   ''                    <div class="footer-logo">\<newline>'' @
   ''                        <img src="https://iili.io/Jp021xX.png" alt="D-Vivid Logo"/>\<newline>'' @
   ''                    </div>\<newline>'' @
   ''                    <span>D-Vivid Consultant - Strategic Counselling Circle</span>\<newline>'' @
   ''                </div>\<newline>'' @
   ''                <div>Report Generated: ''\<close>

definition page_close :: string where
  \<open>page_close =
   ''</div>\<newline>'' @
   ''            </div>\<newline>'' @
   ''        </div>\<newline>'' @
   ''    </body>\<newline>'' @
   ''    </html>\<newline>'' @
   ''  ''\<close>

text \<open>
  One slot of the scores grid:
  \<^verbatim>\<open>scores[label] ? generateScoreCard(label, scores[label], weight) : ''\<close>.
\<close>

definition score_slot :: "runtime \<Rightarrow> (string \<Rightarrow> number option) \<Rightarrow> string \<Rightarrow> string \<Rightarrow> string" where
  "score_slot rt scores label weight =
     (case scores label of
        Some score \<Rightarrow> if truthy_number score then generateScoreCard rt label score weight else ''''
      | None \<Rightarrow> '''')"

text \<open>The six categories of the grid with their weights, in the order of the template.\<close>

definition categories :: "(string \<times> string) list" where
  "categories =
    [(''Financial Planning'', ''25%''), (''Academic Readiness'', ''20%''),
     (''Career Alignment'', ''20%''), (''Personal & Cultural'', ''15%''),
     (''Practical Readiness'', ''10%''), (''Support System'', ''10%'')]"

text \<open>\<^verbatim>\<open>countryFit.map((country, index) => generateCountryCard(country, index)).join('')\<close>\<close>

definition country_cards :: "runtime \<Rightarrow> string list \<Rightarrow> string" where
  "country_cards rt countryFit =
     concat (map (\<lambda>(index, country). generateCountryCard rt country index) (enumerate 0 countryFit))"

definition generateHTMLContent :: "runtime \<Rightarrow> results \<Rightarrow> string" where
  "generateHTMLContent rt results =
    (let date = currentDate rt;
         name = or_default (or_field (Student_Name results) (studentName results)) ''Student'';
         scores = (case Scores results of Some m \<Rightarrow> m | None \<Rightarrow> Map.empty);
         overallIndex = or_number (Overall_Readiness_Index results) (Num 0);
         readinessLevel = or_default (Readiness_Level results) ''Needs Assessment'';
         strengths = or_default (Strengths results) ''No strengths identified'';
         gaps = or_default (Gaps results) ''No gaps identified'';
         recommendations = or_default (Recommendations results) ''No recommendations provided'';
         countryFit = (case Country_Fit_Top_3 results of Some cs \<Rightarrow> cs | None \<Rightarrow> [])
     in
     document_head @ page_header @
     name @ after_studentName @
     date @ after_assessment_date @
     Number_toString rt overallIndex @ after_overallIndex @
     readinessLevel @ before_scores @
     score_slot rt scores ''Financial Planning'' ''25%'' @ between_scores @
     score_slot rt scores ''Academic Readiness'' ''20%'' @ between_scores @
     score_slot rt scores ''Career Alignment'' ''20%'' @ between_scores @
     score_slot rt scores ''Personal & Cultural'' ''15%'' @ between_scores @
     score_slot rt scores ''Practical Readiness'' ''10%'' @ between_scores @
     score_slot rt scores ''Support System'' ''10%'' @ after_scores @
     strengths @ after_strengths @
     gaps @ after_gaps @
     recommendations @ after_recommendations @
     (if length countryFit > 0
      then country_fit_open @ country_cards rt countryFit @ country_fit_close
      else '''') @
     after_country_fit @
     date @ page_close)"

subsection \<open>The file name\<close>

text \<open>
  The characters that \<^verbatim>\<open>\s\<close> matches, each as its UTF-8 bytes: tab, line feed, vertical tab,
  form feed, carriage return, space, U+00A0, U+1680, U+2000 to U+200A, U+2028, U+2029, U+202F,
  U+205F, U+3000 and U+FEFF.
\<close>

definition white_space :: "string list" where
  "white_space =
   [[CHR 0x09], [CHR 0x0A], [CHR 0x0B], [CHR 0x0C], [CHR 0x0D], [CHR 0x20],
    [CHR 0xC2, CHR 0xA0],
    [CHR 0xE1, CHR 0x9A, CHR 0x80],
    [CHR 0xE2, CHR 0x80, CHR 0x80], [CHR 0xE2, CHR 0x80, CHR 0x81], [CHR 0xE2, CHR 0x80, CHR 0x82],
    [CHR 0xE2, CHR 0x80, CHR 0x83], [CHR 0xE2, CHR 0x80, CHR 0x84], [CHR 0xE2, CHR 0x80, CHR 0x85],
    [CHR 0xE2, CHR 0x80, CHR 0x86], [CHR 0xE2, CHR 0x80, CHR 0x87], [CHR 0xE2, CHR 0x80, CHR 0x88],
    [CHR 0xE2, CHR 0x80, CHR 0x89], [CHR 0xE2, CHR 0x80, CHR 0x8A],
    [CHR 0xE2, CHR 0x80, CHR 0xA8], [CHR 0xE2, CHR 0x80, CHR 0xA9], [CHR 0xE2, CHR 0x80, CHR 0xAF],
    [CHR 0xE2, CHR 0x81, CHR 0x9F],
    [CHR 0xE3, CHR 0x80, CHR 0x80],
    [CHR 0xEF, CHR 0xBB, CHR 0xBF]]"

text \<open>The number of bytes of the white-space character a string starts with, 0 if it starts with none.\<close>

definition ws_len :: "string \<Rightarrow> nat" where
  "ws_len s = (case find (\<lambda>w. prefix w s) white_space of Some w \<Rightarrow> length w | None \<Rightarrow> 0)"

lemma ws_len_le: "ws_len s \<le> length s"
  by (auto simp: ws_len_def find_Some_iff prefix_def split: option.splits)

lemma ws_len_pos: "ws_len s \<noteq> 0 \<Longrightarrow> length (drop (ws_len s) s) < length s"
proof -
  assume "ws_len s \<noteq> 0"
  moreover have "ws_len s \<le> length s" by (rule ws_len_le)
  ultimately have "length s - ws_len s < length s" by arith
  then show ?thesis by simp
qed

text \<open>The greedy \<^verbatim>\<open>\s+\<close>: drop white space as long as there is some.\<close>

function skip_white_space :: "string \<Rightarrow> string" where
  "skip_white_space s = (if ws_len s = 0 then s else skip_white_space (drop (ws_len s) s))"
  by pat_completeness auto
termination
  by (relation "measure length") (use ws_len_pos in auto)

declare skip_white_space.simps [simp del]

lemma length_skip_white_space: "length (skip_white_space s) \<le> length s"
proof (induction s rule: skip_white_space.induct)
  case (1 s)
  show ?case
  proof (cases "ws_len s = 0")
    case True
    then show ?thesis by (simp add: skip_white_space.simps [of s])
  next
    case False
    with 1 have "length (skip_white_space (drop (ws_len s) s)) \<le> length (drop (ws_len s) s)"
      by simp
    with False show ?thesis by (simp add: skip_white_space.simps [of s])
  qed
qed

lemma skip_white_space_shorter: "0 < ws_len s \<Longrightarrow> length (skip_white_space s) < length s"
  using length_skip_white_space [of "drop (ws_len s) s"] ws_len_pos [of s]
  by (simp add: skip_white_space.simps [of s])

text \<open>\<^verbatim>\<open>.replace(/\s+/g, '-')\<close>: left to right, every maximal run of white space becomes one hyphen.\<close>

function replace_white_space :: "string \<Rightarrow> string" where
  "replace_white_space [] = []"
| "replace_white_space (c # cs) =
     (if ws_len (c # cs) = 0 then c # replace_white_space cs
      else CHR ''-'' # replace_white_space (skip_white_space (c # cs)))"
  by pat_completeness auto
termination
  by (relation "measure length") (auto dest: skip_white_space_shorter)

text \<open>
  \<^verbatim>\<open>.toLowerCase()\<close>: on a string of ASCII characters the letters A to Z become a to z and
  nothing else changes; any other string goes through the host's Unicode case mapping.
\<close>

definition lower_char :: "char \<Rightarrow> char" where
  "lower_char c = (let n = (of_char c :: nat) in if 65 \<le> n \<and> n \<le> 90 then char_of (n + 32) else c)"

definition ascii :: "string \<Rightarrow> bool" where
  "ascii s = list_all (\<lambda>c. (of_char c :: nat) < 128) s"

definition toLowerCase :: "runtime \<Rightarrow> string \<Rightarrow> string" where
  "toLowerCase rt s = (if ascii s then map lower_char s else unicodeLower rt s)"

text \<open>
  The expression of both \<^verbatim>\<open>Content-Disposition\<close> headers,
  \<^verbatim>\<open>(results['Student Name'] || results.studentName).replace(/\s+/g, '-').toLowerCase()\<close>.
  Calling \<^verbatim>\<open>replace\<close> on \<^verbatim>\<open>undefined\<close> throws a TypeError, which is \<^term>\<open>None\<close> here.
\<close>

definition file_slug :: "runtime \<Rightarrow> results \<Rightarrow> string option" where
  "file_slug rt results =
     (case or_field (Student_Name results) (studentName results) of
        Some s \<Rightarrow> Some (toLowerCase rt (replace_white_space s))
      | None \<Rightarrow> None)"

text \<open>
  The slug in the words of the interface description: lower-case the name, then replace
  every run of white space by one hyphen. It is stated for names of ASCII characters, where
  white space is tab, line feed, vertical tab, form feed, carriage return and space.
\<close>

definition ascii_space :: "char \<Rightarrow> bool" where
  "ascii_space c = (let n = (of_char c :: nat) in (9 \<le> n \<and> n \<le> 13) \<or> n = 32)"

text \<open>The maximal runs of a list: neighbours are in one run when \<open>P\<close> agrees on them.\<close>

function runs :: "('a \<Rightarrow> bool) \<Rightarrow> 'a list \<Rightarrow> 'a list list" where
  "runs P [] = []"
| "runs P (x # xs) =
     (x # takeWhile (\<lambda>y. P y = P x) xs) # runs P (dropWhile (\<lambda>y. P y = P x) xs)"
  by pat_completeness auto
termination
  by (relation "measure (\<lambda>(P, xs). length xs)") (auto simp: length_dropWhile_le less_Suc_eq_le)

declare runs.simps [simp del]

definition hyphen_for_space :: "string \<Rightarrow> string" where
  "hyphen_for_space run = (case run of [] \<Rightarrow> [] | c # _ \<Rightarrow> if ascii_space c then ''-'' else run)"

definition slugify_spec :: "string \<Rightarrow> string" where
  "slugify_spec name = concat (map hyphen_for_space (runs ascii_space (map lower_char name)))"

subsection \<open>The handler\<close>

type_synonym buffer = "8 word list"

datatype payload = Json "(string \<times> string) list" | Html string | Pdf buffer

record response =
  status :: nat
  headers :: "(string \<times> string) list"
  body :: payload

text \<open>\<^verbatim>\<open>NextResponse.json({ error: message }, { status: code })\<close>; the source sets no header here.\<close>

definition json_error :: "nat \<Rightarrow> string \<Rightarrow> response" where
  "json_error code message = \<lparr>status = code, headers = [], body = Json [(''error'', message)]\<rparr>"

text \<open>The outer \<^verbatim>\<open>catch\<close>: whatever was thrown, the answer is the same.\<close>

definition catch_all :: response where
  "catch_all = json_error 500 ''Failed to generate PDF''"

text \<open>
  What \<^verbatim>\<open>request.json()\<close> gives: it throws on a malformed body, and otherwise returns
  \<^verbatim>\<open>null\<close>, a value that is not an object (a boolean, number, string or array, on which
  every property the handler reads is \<^verbatim>\<open>undefined\<close>), or an object.
\<close>

datatype request = Malformed | JNull | JOther | JObject results

text \<open>
  The browser library is outside the source. A run of it is described by what each awaited
  call does: \<^verbatim>\<open>launch\<close>, \<^verbatim>\<open>newPage\<close> and \<^verbatim>\<open>setContent\<close> succeed or throw, \<^verbatim>\<open>page.pdf\<close> returns
  a buffer or throws. \<^verbatim>\<open>browser.close\<close> is taken to succeed. The fixed timeouts and the
  three-second wait are not modelled.
\<close>

record browser =
  launch_ok :: bool
  newPage_ok :: bool
  setContent_ok :: bool
  pdf_result :: "buffer option"

text \<open>What the handler did to the browser, in order.\<close>

datatype event = Launched | PageOpened | ContentSet string | PdfPrinted | Closed

text \<open>The simplified page of the inner \<^verbatim>\<open>catch\<close>.\<close>

definition fallback_html :: "runtime \<Rightarrow> results \<Rightarrow> string" where
  \<open>fallback_html rt results =
     ''\<newline>'' @
     ''        '' @ ''<html>\<newline>'' @
     ''          '' @ ''<head><title>Study Abroad Report - '' @
     template_string (or_field (Student_Name results) (studentName results)) @
     ''</title></head>\<newline>'' @
     ''          '' @ ''<body style="font-family: Arial, sans-serif; padding: 20px;">\<newline>'' @
     ''            '' @ ''<h1>Study Abroad Readiness Report</h1>\<newline>'' @
     ''            '' @ ''<h2>Student: '' @
     template_string (or_field (Student_Name results) (studentName results)) @
     ''</h2>\<newline>'' @
     ''            '' @ ''<p><strong>Overall Readiness Index:</strong> '' @
     (case Overall_Readiness_Index results of
        Some n \<Rightarrow> if truthy_number n then Number_toString rt n else ''N/A''
      | None \<Rightarrow> ''N/A'') @
     ''</p>\<newline>'' @
     ''            '' @ ''<p><strong>Readiness Level:</strong> '' @
     or_default (Readiness_Level results) ''Needs Assessment'' @
     ''</p>\<newline>'' @
     ''            '' @ ''<h3>Strengths:</h3>\<newline>'' @
     ''            '' @ ''<p>'' @
     or_default (Strengths results) ''No strengths identified'' @
     ''</p>\<newline>'' @
     ''            '' @ ''<h3>Recommendations:</h3>\<newline>'' @
     ''            '' @ ''<p>'' @
     or_default (Recommendations results) ''No recommendations provided'' @
     ''</p>\<newline>'' @
     ''            '' @ ''<p><em>Note: This is a simplified report. For detailed analysis, please retry PDF generation.</em></p>\<newline>'' @
     ''          '' @ ''</body>\<newline>'' @
     ''        '' @ ''</html>\<newline>'' @
     ''      ''\<close>

text \<open>
  The constructors \<^verbatim>\<open>new NextResponse(body, { headers })\<close> and
  \<^verbatim>\<open>new Response(body, { status: 200, headers })\<close>. A header value has to be a byte string
  without NUL, line feed and carriage return: the constructor throws a TypeError when the
  value has a character above U+00FF (in UTF-8, a byte from \<open>0xC4\<close> on) or one of these three,
  which is \<^term>\<open>None\<close> here. The status of \<^verbatim>\<open>new NextResponse\<close> without one is 200.
\<close>

definition header_value_ok :: "string \<Rightarrow> bool" where
  "header_value_ok v =
     list_all (\<lambda>c. let n = (of_char c :: nat) in n \<noteq> 0 \<and> n \<noteq> 10 \<and> n \<noteq> 13 \<and> n < 196) v"

definition new_Response :: "(string \<times> string) list \<Rightarrow> payload \<Rightarrow> response option" where
  "new_Response hs b =
     (if list_all (\<lambda>(name, v). header_value_ok v) hs
      then Some \<lparr>status = 200, headers = hs, body = b\<rparr>
      else None)"

text \<open>
  Lines 16 to 109: everything after the check of the student name. What is thrown after
  \<^verbatim>\<open>browser.close()\<close>, by the slug or by the constructor of the response, reaches the outer
  \<^verbatim>\<open>catch\<close> like everything else.
\<close>

definition export :: "runtime \<Rightarrow> browser \<Rightarrow> results \<Rightarrow> response \<times> event list" where
  \<open>export rt br results =
    (if \<not> launch_ok br then (catch_all, [])
     else if \<not> newPage_ok br then (catch_all, [Launched])
     else
       let htmlContent = generateHTMLContent rt results in
       if \<not> setContent_ok br then (catch_all, [Launched, PageOpened])
       else
         (case pdf_result br of
            None \<Rightarrow>
              (case file_slug rt results of
                 None \<Rightarrow> (catch_all, [Launched, PageOpened, ContentSet htmlContent, Closed])
               | Some slug \<Rightarrow>
                   (case new_Response
                       [(''Content-Type'', ''text/html''),
                        (''Content-Disposition'',
                         ''attachment; filename="study-abroad-report-'' @ slug @ ''.html"'')]
                       (Html (fallback_html rt results)) of
                      None \<Rightarrow> (catch_all, [Launched, PageOpened, ContentSet htmlContent, Closed])
                    | Some answer \<Rightarrow>
                        (answer, [Launched, PageOpened, ContentSet htmlContent, Closed])))
          | Some pdfBuffer \<Rightarrow>
              if length pdfBuffer = 0
              then (json_error 500 ''PDF generation failed - empty buffer'',
                    [Launched, PageOpened, ContentSet htmlContent, PdfPrinted, Closed])
              else
                (case file_slug rt results of
                   None \<Rightarrow>
                     (catch_all, [Launched, PageOpened, ContentSet htmlContent, PdfPrinted, Closed])
                 | Some slug \<Rightarrow>
                     (case new_Response
                         [(''Content-Type'', ''application/pdf''),
                          (''Content-Length'', Number_toString rt (Num (of_nat (length pdfBuffer)))),
                          (''Content-Disposition'',
                           ''attachment; filename="psychometric-report-'' @ slug @ ''.pdf"'')]
                         (Pdf pdfBuffer) of
                        None \<Rightarrow>
                          (catch_all,
                           [Launched, PageOpened, ContentSet htmlContent, PdfPrinted, Closed])
                      | Some answer \<Rightarrow>
                          (answer,
                           [Launched, PageOpened, ContentSet htmlContent, PdfPrinted, Closed])))))\<close>

definition POST :: "runtime \<Rightarrow> browser \<Rightarrow> request \<Rightarrow> response \<times> event list" where
  "POST rt br req =
    (case req of
       Malformed \<Rightarrow> (catch_all, [])
     | JNull \<Rightarrow> (catch_all, [])
     | JOther \<Rightarrow> (json_error 400 ''Missing student name'', [])
     | JObject results \<Rightarrow>
         if \<not> truthy_string (Student_Name results) \<and> \<not> truthy_string (studentName results)
         then (json_error 400 ''Missing student name'', [])
         else export rt br results)"

subsection \<open>Inputs for examples\<close>

text \<open>
  A host whose date is 2 November 2026, a body without fields, a body with the name Jane Doe,
  and a browser where every call succeeds.
\<close>

definition example_runtime :: runtime where
  "example_runtime =
     \<lparr>currentDate = ''November 2, 2026'', shortest = (\<lambda>q. ''72.5''), unicodeLower = (\<lambda>s. s)\<rparr>"

definition no_fields :: results where
  "no_fields =
     \<lparr>Student_Name = None, studentName = None, Scores = None, Overall_Readiness_Index = None,
      Readiness_Level = None, Strengths = None, Gaps = None, Recommendations = None,
      Country_Fit_Top_3 = None\<rparr>"

definition jane :: results where
  "jane = no_fields\<lparr>Student_Name := Some ''Jane Doe''\<rparr>"

text \<open>The name \<^verbatim>\<open>U+65E5 U+672C\<close> (Nihon, two characters above U+00FF), and a body with this name.\<close>

definition nihon :: string where
  "nihon = [CHR 0xE6, CHR 0x97, CHR 0xA5, CHR 0xE6, CHR 0x9C, CHR 0xAC]"

definition nihon_body :: results where
  "nihon_body = no_fields\<lparr>Student_Name := Some nihon\<rparr>"

definition printing :: browser where
  "printing = \<lparr>launch_ok = True, newPage_ok = True, setContent_ok = True,
               pdf_result = Some [0x25, 0x50, 0x44, 0x46]\<rparr>"


section \<open>Properties\<close>

subsection \<open>Tools\<close>

text \<open>
  \<^term>\<open>sublist xs ys\<close> says that \<open>xs\<close> occurs in \<open>ys\<close> as a contiguous piece. In a text that
  is a concatenation of segments, a piece is found by skipping segments until it starts one.
\<close>

lemma skip_segment: "sublist xs zs \<Longrightarrow> sublist xs (ys @ zs)"
proof -
  assume "sublist xs zs"
  then obtain ps ss where "zs = ps @ xs @ ss"
    by (auto simp: sublist_def)
  then have "ys @ zs = (ys @ ps) @ xs @ ss"
    by simp
  then show ?thesis
    unfolding sublist_def by blast
qed

lemma at_segment: "prefix xs zs \<Longrightarrow> sublist xs zs"
  by (rule prefix_imp_sublist)

lemma sublist_trans: "sublist xs ys \<Longrightarrow> sublist ys zs \<Longrightarrow> sublist xs zs"
proof -
  assume "sublist xs ys" and "sublist ys zs"
  then obtain p s p' s' where "ys = p @ xs @ s" and "zs = p' @ ys @ s'"
    by (auto simp: sublist_def)
  then have "zs = (p' @ p) @ xs @ (s @ s')"
    by simp
  then show ?thesis
    unfolding sublist_def by blast
qed


lemma floor_plus_half: "\<lfloor>(of_int n :: rat) + 1 / 2\<rfloor> = n"
  by (rule floor_unique) simp_all


lemma Math_round_integer: "Math_round (Num (of_int n)) = Num (of_int n)"
  by (simp add: floor_plus_half)

lemma Number_toString_integer:
  "\<bar>n\<bar> \<le> 2 ^ 53 \<Longrightarrow> Number_toString rt (Num (of_int n)) = int_toString n"
proof -
  assume "\<bar>n\<bar> \<le> 2 ^ 53"
  then have "\<bar>of_int n :: rat\<bar> \<le> of_int (2 ^ 53)"
    by (simp only: of_int_abs [symmetric] of_int_le_iff)
  then show ?thesis by (simp add: safe_integer_def)
qed

subsection \<open>Score cards\<close>











subsection \<open>The check of the student name\<close>

lemma export_status: "status (fst (export rt br r)) = 200 \<or> status (fst (export rt br r)) = 500"
  by (auto simp: export_def Let_def catch_all_def json_error_def new_Response_def
      split: option.splits if_splits)

lemma export_content:
  "launch_ok br \<Longrightarrow> newPage_ok br \<Longrightarrow> setContent_ok br \<Longrightarrow>
   ContentSet (generateHTMLContent rt r) \<in> set (snd (export rt br r))"
  by (simp add: export_def Let_def split: option.splits)

text \<open>
  What the check does on every parsed body other than \<^verbatim>\<open>null\<close>. If neither \<^verbatim>\<open>Student Name\<close>
  nor \<^verbatim>\<open>studentName\<close> is present and non-empty (in particular when the body is a boolean, a
  number, a string or an array), the answer is status 400 with the body
  \<^verbatim>\<open>{error: "Missing student name"}\<close> and the browser is not touched; if one of them is present
  and non-empty, the handler goes on with the same body: its answer is that of the rest of
  the handler on this body, it is never a 400, and the page given to the browser is the
  report built from this body.
\<close>

lemma student_name_validation:
  "POST rt br JOther = (json_error 400 ''Missing student name'', []) \<and>
   (\<not> truthy_string (Student_Name r) \<and> \<not> truthy_string (studentName r) \<longrightarrow>
      POST rt br (JObject r) = (json_error 400 ''Missing student name'', [])) \<and>
   (truthy_string (Student_Name r) \<or> truthy_string (studentName r) \<longrightarrow>
      POST rt br (JObject r) = export rt br r \<and>
      status (fst (POST rt br (JObject r))) \<noteq> 400 \<and>
      (launch_ok br \<and> newPage_ok br \<and> setContent_ok br \<longrightarrow>
         ContentSet (generateHTMLContent rt r) \<in> set (snd (POST rt br (JObject r)))))"
proof (intro conjI impI)
  show "POST rt br JOther = (json_error 400 ''Missing student name'', [])"
    by (simp add: POST_def)
next
  assume "\<not> truthy_string (Student_Name r) \<and> \<not> truthy_string (studentName r)"
  then show "POST rt br (JObject r) = (json_error 400 ''Missing student name'', [])"
    by (simp add: POST_def)
next
  assume name: "truthy_string (Student_Name r) \<or> truthy_string (studentName r)"
  then show rest: "POST rt br (JObject r) = export rt br r"
    by (auto simp: POST_def)
  from export_status [of rt br r] show "status (fst (POST rt br (JObject r))) \<noteq> 400"
    unfolding rest by auto
  assume "launch_ok br \<and> newPage_ok br \<and> setContent_ok br"
  then show "ContentSet (generateHTMLContent rt r) \<in> set (snd (POST rt br (JObject r)))"
    unfolding rest by (simp add: export_content)
qed

text \<open>
  C1 does not hold of the code for the body \<^verbatim>\<open>null\<close>. Neither name field is present in it,
  so the answer should be status 400 with \<^verbatim>\<open>{error: "Missing student name"}\<close>; but reading
  \<^verbatim>\<open>results['Student Name']\<close> on \<^verbatim>\<open>null\<close> throws before the check has an answer, and the outer
  \<^verbatim>\<open>catch\<close> answers 500 with \<^verbatim>\<open>{error: "Failed to generate PDF"}\<close>. Every other body without a
  name, a body that is not an object and an object without the fields, is answered 400.
\<close>

theorem null_body_is_answered_500:
  "POST example_runtime printing JNull = (json_error 500 ''Failed to generate PDF'', []) \<and>
   status (fst (POST example_runtime printing JNull)) \<noteq> 400 \<and>
   POST example_runtime printing JOther = (json_error 400 ''Missing student name'', []) \<and>
   POST example_runtime printing (JObject no_fields) =
     (json_error 400 ''Missing student name'', [])"
  by (simp add: POST_def catch_all_def json_error_def no_fields_def truthy_string_def)

subsection \<open>The browser on the way out\<close>

text \<open>
  With a student name and a browser that launched, the handler closes the browser exactly
  when the page could be opened and its content could be set: the answers after
  \<^verbatim>\<open>page.pdf\<close> (the PDF, the simplified page, the empty buffer) all come after \<^verbatim>\<open>browser.close\<close>,
  the outer \<^verbatim>\<open>catch\<close> does not call it.
\<close>

lemma browser_closed_iff:
  "truthy_string (Student_Name r) \<or> truthy_string (studentName r) \<Longrightarrow> launch_ok br \<Longrightarrow>
   Closed \<in> set (snd (POST rt br (JObject r))) \<longleftrightarrow> newPage_ok br \<and> setContent_ok br"
  by (auto simp: POST_def export_def Let_def split: option.splits)

lemma browser_closed_last:
  "newPage_ok br \<Longrightarrow> setContent_ok br \<Longrightarrow> snd (export rt br r) \<noteq> [] \<Longrightarrow>
   last (snd (export rt br r)) = Closed"
  by (auto simp: export_def Let_def split: option.splits)

text \<open>
  C3 does not hold of the code. When \<^verbatim>\<open>page.setContent\<close> throws, the browser has been launched
  and a page opened, the outer \<^verbatim>\<open>catch\<close> answers 500, and \<^verbatim>\<open>browser.close\<close> is never called.
\<close>

theorem content_load_failure_leaves_browser_open:
  "POST example_runtime (printing\<lparr>setContent_ok := False\<rparr>) (JObject jane) =
     (json_error 500 ''Failed to generate PDF'', [Launched, PageOpened]) \<and>
   Launched \<in> set (snd (POST example_runtime (printing\<lparr>setContent_ok := False\<rparr>) (JObject jane))) \<and>
   Closed \<notin> set (snd (POST example_runtime (printing\<lparr>setContent_ok := False\<rparr>) (JObject jane)))"
  by (simp add: POST_def export_def Let_def jane_def no_fields_def printing_def
      truthy_string_def catch_all_def)

subsection \<open>The scores grid\<close>

lemma score_slot_card:
  "scores label = Some score \<Longrightarrow> truthy_number score \<Longrightarrow>
   score_slot rt scores label weight = generateScoreCard rt label score weight"
  by (simp add: score_slot_def)

lemma score_slot_absent: "scores label = None \<Longrightarrow> score_slot rt scores label weight = ''''"
  by (simp add: score_slot_def)

lemma score_slot_zero: "scores label = Some (Num 0) \<Longrightarrow> score_slot rt scores label weight = ''''"
  by (simp add: score_slot_def)

lemma score_slots_in_page:
  assumes "Scores r = Some m"
  shows "sublist (score_slot rt m ''Financial Planning'' ''25%'') (generateHTMLContent rt r)"
    and "sublist (score_slot rt m ''Academic Readiness'' ''20%'') (generateHTMLContent rt r)"
    and "sublist (score_slot rt m ''Career Alignment'' ''20%'') (generateHTMLContent rt r)"
    and "sublist (score_slot rt m ''Personal & Cultural'' ''15%'') (generateHTMLContent rt r)"
    and "sublist (score_slot rt m ''Practical Readiness'' ''10%'') (generateHTMLContent rt r)"
    and "sublist (score_slot rt m ''Support System'' ''10%'') (generateHTMLContent rt r)"
  unfolding generateHTMLContent_def Let_def assms option.case
  by ((rule at_segment, (simp; fail)) | rule skip_segment)+

text \<open>A category of the grid whose score is there and is not zero has its card in the page.\<close>

lemma score_card_in_page:
  assumes "Scores r = Some m" and "m label = Some score" and "truthy_number score"
    and "(label, weight) \<in> set categories"
  shows "sublist (generateScoreCard rt label score weight) (generateHTMLContent rt r)"
proof -
  have "sublist (score_slot rt m label weight) (generateHTMLContent rt r)"
    using assms(4) score_slots_in_page [OF assms(1), of rt]
    by (auto simp: categories_def)
  then show ?thesis
    using assms(2,3) by (simp add: score_slot_card)
qed

text \<open>
  What the page looks like depends on the scores only through the six slots, and a slot is
  empty for a score that is missing and for a score of zero alike.
\<close>

lemma page_with_empty_slots:
  assumes "\<forall>(label, weight) \<in> set categories. m label = None \<or> m label = Some (Num 0)"
  shows "generateHTMLContent rt (r\<lparr>Scores := Some m\<rparr>) = generateHTMLContent rt (r\<lparr>Scores := None\<rparr>)"
proof -
  have "score_slot rt m label weight = ''''" if "(label, weight) \<in> set categories" for label weight
    using assms that by (auto simp: score_slot_def)
  then have "score_slot rt m ''Financial Planning'' ''25%'' = ''''"
    and "score_slot rt m ''Academic Readiness'' ''20%'' = ''''"
    and "score_slot rt m ''Career Alignment'' ''20%'' = ''''"
    and "score_slot rt m ''Personal & Cultural'' ''15%'' = ''''"
    and "score_slot rt m ''Practical Readiness'' ''10%'' = ''''"
    and "score_slot rt m ''Support System'' ''10%'' = ''''"
    by (simp_all add: categories_def)
  then show ?thesis
    by (simp add: generateHTMLContent_def Let_def score_slot_def)
qed

text \<open>
  C2 does not hold of the code. The slot of a category tests the score itself, and the number
  0 is falsy: a report whose \<^verbatim>\<open>Scores\<close> give Financial Planning the value 0 has an empty slot
  for it, and is the same page as the report without any score.
\<close>

theorem zero_score_has_no_card:
  "score_slot example_runtime [''Financial Planning'' \<mapsto> Num 0] ''Financial Planning'' ''25%'' = '''' \<and>
   generateHTMLContent example_runtime (jane\<lparr>Scores := Some [''Financial Planning'' \<mapsto> Num 0]\<rparr>) =
   generateHTMLContent example_runtime jane"
  by (simp add: generateHTMLContent_def score_slot_def jane_def no_fields_def Let_def)

subsection \<open>Country cards\<close>

lemma country_rank_shown:
  \<open>sublist (''<div class="country-rank">#'' @ Number_toString rt (Num (of_nat index + 1)) @ ''</div>'')
     (generateCountryCard rt country index)\<close>
  unfolding generateCountryCard_def Let_def
  by ((rule at_segment, (simp; fail)) | rule skip_segment)+

lemma country_match_shown:
  \<open>sublist (''<div class="country-score">'' @
            Number_toString rt (Math_round (Num (100 - of_nat index * 15))) @ ''% Match</div>'')
     (generateCountryCard rt country index)\<close>
  unfolding generateCountryCard_def Let_def
  by ((rule at_segment, (simp; fail)) | rule skip_segment)+

text \<open>
  The match percentage is \<open>100 - 15 * index\<close>, printed in decimal, for every index an array can
  have (its length is below \<open>2^32\<close>); it is negative from index 7 on.
\<close>

lemma match_percentage:
  assumes "index < 2 ^ 32"
  shows "Number_toString rt (Math_round (Num (100 - of_nat index * 15))) =
         int_toString (100 - 15 * int index)"
proof -
  have "(100 :: rat) - of_nat index * 15 = of_int (100 - 15 * int index)"
    by simp
  then have "Math_round (Num (100 - of_nat index * 15)) = Num (of_int (100 - 15 * int index))"
    by (simp only: Math_round_integer)
  moreover from assms have "\<bar>100 - 15 * int index\<bar> \<le> 2 ^ 53"
    by simp
  ultimately show ?thesis
    by (simp only: Number_toString_integer)
qed

lemma country_flag_shown:
  \<open>sublist (''<div class="country-flag">'' @
            template_string (flag (case countryInfo_get country of Some m \<Rightarrow> m | None \<Rightarrow> Entry globe)) @
            ''</div>'')
     (generateCountryCard rt country index)\<close>
  unfolding generateCountryCard_def Let_def
  by ((rule at_segment, (simp; fail)) | rule skip_segment)+

lemma flag_of_known_country:
  "map_of countryInfo country = Some f \<Longrightarrow>
   template_string (flag (case countryInfo_get country of Some m \<Rightarrow> m | None \<Rightarrow> Entry globe)) = f"
  by (simp add: countryInfo_get_def template_string_def)

lemma flag_of_unknown_country:
  "map_of countryInfo country = None \<Longrightarrow> country \<notin> set Object_prototype \<Longrightarrow>
   template_string (flag (case countryInfo_get country of Some m \<Rightarrow> m | None \<Rightarrow> Entry globe)) = globe"
  by (simp add: countryInfo_get_def template_string_def)

lemma no_country_is_inherited: "country \<in> set Object_prototype \<Longrightarrow> map_of countryInfo country = None"
proof -
  have "list_all (\<lambda>name. map_of countryInfo name = None) Object_prototype"
    by code_simp
  then show "country \<in> set Object_prototype \<Longrightarrow> map_of countryInfo country = None"
    by (simp add: list_all_iff)
qed

lemma flag_of_inherited_name:
  "country \<in> set Object_prototype \<Longrightarrow>
   template_string (flag (case countryInfo_get country of Some m \<Rightarrow> m | None \<Rightarrow> Entry globe)) =
   ''undefined''"
  by (simp add: countryInfo_get_def template_string_def no_country_is_inherited)

lemma in_concat: "x \<in> set xs \<Longrightarrow> sublist x (concat xs)"
proof (induction xs)
  case Nil
  then show ?case by simp
next
  case (Cons y ys)
  show ?case
  proof (cases "x = y")
    case True
    then show ?thesis by simp
  next
    case False
    with Cons have "sublist x (concat ys)" by simp
    then show ?thesis by (simp add: skip_segment)
  qed
qed

lemma country_card_in_cards:
  assumes "index < length countryFit"
  shows "sublist (generateCountryCard rt (countryFit ! index) index) (country_cards rt countryFit)"
proof -
  from assms have "(index, countryFit ! index) \<in> set (enumerate 0 countryFit)"
    by (simp add: in_set_enumerate_eq)
  then have "generateCountryCard rt (countryFit ! index) index
      \<in> set (map (\<lambda>(index, country). generateCountryCard rt country index) (enumerate 0 countryFit))"
    by force
  then show ?thesis
    unfolding country_cards_def by (rule in_concat)
qed

lemma country_cards_in_page:
  assumes "Country_Fit_Top_3 r = Some countryFit" and "countryFit \<noteq> []"
  shows "sublist (country_cards rt countryFit) (generateHTMLContent rt r)"
proof -
  from assms(2) have "0 < length countryFit" by simp
  then show ?thesis
    unfolding generateHTMLContent_def Let_def assms(1) option.case
    by (simp only: if_True append_assoc)
       ((rule at_segment, (simp; fail)) | rule skip_segment)+
qed

text \<open>Every country of the list has its card in the page, at its own index.\<close>

lemma country_card_in_page:
  assumes "Country_Fit_Top_3 r = Some countryFit" and "index < length countryFit"
  shows "sublist (generateCountryCard rt (countryFit ! index) index) (generateHTMLContent rt r)"
proof -
  from assms(2) have "countryFit \<noteq> []" by auto
  with assms(1) have "sublist (country_cards rt countryFit) (generateHTMLContent rt r)"
    by (rule country_cards_in_page)
  with country_card_in_cards [OF assms(2)] show ?thesis
    by (rule sublist_trans)
qed

text \<open>
  C6 does not hold of the code for a country whose name is that of a member every object
  inherits. \<^verbatim>\<open>constructor\<close> is not in the table, \<^verbatim>\<open>countryInfo['constructor']\<close> is the function
  \<^verbatim>\<open>Object\<close>, which is truthy and has no \<^verbatim>\<open>flag\<close>: the card shows the word \<^verbatim>\<open>undefined\<close> where
  the globe should be. The card is still rendered, with the match percentage of its index.
\<close>

theorem inherited_name_shows_undefined:
  \<open>map_of countryInfo ''constructor'' = None \<and>
   generateCountryCard example_runtime ''constructor'' 0 =
     ''\<newline>'' @
     ''      <div class="country-card">\<newline>'' @
     ''        <div class="country-rank">#1</div>\<newline>'' @
     ''        <div class="country-flag">undefined</div>\<newline>'' @
     ''        <div class="country-name">constructor</div>\<newline>'' @
     ''        <div class="country-score">100% Match</div>\<newline>'' @
     ''      </div>\<newline>'' @
     ''    ''\<close>
  by code_simp

subsection \<open>The fixed text around the interpolations\<close>

lemma after_assessment_date_tail:
  \<open>suffix (''<div class="overall-score">\<newline>'' @ ''                    <h3>'')
     after_assessment_date\<close>
  by code_simp

lemma after_overallIndex_head: \<open>prefix ''%</h3>'' after_overallIndex\<close>
  by code_simp

lemma after_overallIndex_tail: \<open>suffix ''<p>Overall Readiness Index: '' after_overallIndex\<close>
  by code_simp

lemma before_scores_head: \<open>prefix ''</p>'' before_scores\<close>
  by code_simp

lemma after_scores_tail:
  \<open>suffix (''Key Strengths</h4>\<newline>'' @ ''                    <p>'') after_scores\<close>
  by code_simp

lemma after_strengths_head: \<open>prefix ''</p>'' after_strengths\<close>
  by code_simp

lemma after_strengths_tail:
  \<open>suffix (''Areas for Development</h4>\<newline>'' @ ''                    <p>'') after_strengths\<close>
  by code_simp

lemma after_gaps_head: \<open>prefix ''</p>'' after_gaps\<close>
  by code_simp

lemma after_gaps_tail:
  \<open>suffix (''Strategic Recommendations</h4>\<newline>'' @ ''                    <p>'') after_gaps\<close>
  by code_simp

lemma after_recommendations_head: \<open>prefix ''</p>'' after_recommendations\<close>
  by code_simp

subsection \<open>Missing strengths, gaps and recommendations\<close>

lemma default_strengths:
  assumes "Strengths r = None"
  shows \<open>sublist (''Key Strengths</h4>\<newline>'' @
                  ''                    <p>No strengths identified</p>'')
           (generateHTMLContent rt r)\<close>
proof -
  obtain a where a: \<open>after_scores = a @ ''Key Strengths</h4>\<newline>'' @ ''                    <p>''\<close>
    using after_scores_tail unfolding suffix_def by blast
  obtain b where b: \<open>after_strengths = ''</p>'' @ b\<close>
    using after_strengths_head unfolding prefix_def by blast
  show ?thesis
    unfolding generateHTMLContent_def Let_def a b or_default_def assms option.case
    by (simp only: append_assoc)
       ((rule at_segment, (simp; fail)) | rule skip_segment)+
qed

lemma default_gaps:
  assumes "Gaps r = None"
  shows \<open>sublist (''Areas for Development</h4>\<newline>'' @
                  ''                    <p>No gaps identified</p>'')
           (generateHTMLContent rt r)\<close>
proof -
  obtain a where a:
    \<open>after_strengths = a @ ''Areas for Development</h4>\<newline>'' @ ''                    <p>''\<close>
    using after_strengths_tail unfolding suffix_def by blast
  obtain b where b: \<open>after_gaps = ''</p>'' @ b\<close>
    using after_gaps_head unfolding prefix_def by blast
  show ?thesis
    unfolding generateHTMLContent_def Let_def a b or_default_def assms option.case
    by (simp only: append_assoc)
       ((rule at_segment, (simp; fail)) | rule skip_segment)+
qed

lemma default_recommendations:
  assumes "Recommendations r = None"
  shows \<open>sublist (''Strategic Recommendations</h4>\<newline>'' @
                  ''                    <p>No recommendations provided</p>'')
           (generateHTMLContent rt r)\<close>
proof -
  obtain a where a:
    \<open>after_gaps = a @ ''Strategic Recommendations</h4>\<newline>'' @ ''                    <p>''\<close>
    using after_gaps_tail unfolding suffix_def by blast
  obtain b where b: \<open>after_recommendations = ''</p>'' @ b\<close>
    using after_recommendations_head unfolding prefix_def by blast
  show ?thesis
    unfolding generateHTMLContent_def Let_def a b or_default_def assms option.case
    by (simp only: append_assoc)
       ((rule at_segment, (simp; fail)) | rule skip_segment)+
qed

text \<open>
  C7. When \<^verbatim>\<open>Strengths\<close>, \<^verbatim>\<open>Gaps\<close> or \<^verbatim>\<open>Recommendations\<close> is absent from the input, the section of
  the report is still there and its paragraph is the default text: \<^verbatim>\<open>No strengths identified\<close>
  under Key Strengths, \<^verbatim>\<open>No gaps identified\<close> under Areas for Development,
  \<^verbatim>\<open>No recommendations provided\<close> under Strategic Recommendations.
\<close>

theorem missing_texts_show_defaults:
  \<open>(Strengths r = None \<longrightarrow>
      sublist (''Key Strengths</h4>\<newline>'' @
               ''                    <p>No strengths identified</p>'')
        (generateHTMLContent rt r)) \<and>
   (Gaps r = None \<longrightarrow>
      sublist (''Areas for Development</h4>\<newline>'' @
               ''                    <p>No gaps identified</p>'')
        (generateHTMLContent rt r)) \<and>
   (Recommendations r = None \<longrightarrow>
      sublist (''Strategic Recommendations</h4>\<newline>'' @
               ''                    <p>No recommendations provided</p>'')
        (generateHTMLContent rt r))\<close>
  by (intro conjI impI default_strengths default_gaps default_recommendations)

text \<open>The report of a body that has nothing but the student name.\<close>

theorem missing_texts_show_defaults_witness:
  \<open>Strengths jane = None \<and> Gaps jane = None \<and> Recommendations jane = None \<and>
   sublist (''Key Strengths</h4>\<newline>'' @
            ''                    <p>No strengths identified</p>'')
     (generateHTMLContent example_runtime jane) \<and>
   sublist (''Areas for Development</h4>\<newline>'' @
            ''                    <p>No gaps identified</p>'')
     (generateHTMLContent example_runtime jane) \<and>
   sublist (''Strategic Recommendations</h4>\<newline>'' @
            ''                    <p>No recommendations provided</p>'')
     (generateHTMLContent example_runtime jane)\<close>
proof -
  have absent: "Strengths jane = None" "Gaps jane = None" "Recommendations jane = None"
    by (simp_all add: jane_def no_fields_def)
  with missing_texts_show_defaults [of jane example_runtime] show ?thesis
    by blast
qed

subsection \<open>The date\<close>

lemma Number_toString_date:
  "Number_toString (rt\<lparr>currentDate := d\<rparr>) n = Number_toString rt n"
  by (cases n) simp_all

lemma generateScoreCard_date:
  "generateScoreCard (rt\<lparr>currentDate := d\<rparr>) label score weight =
   generateScoreCard rt label score weight"
  by (simp add: generateScoreCard_def Number_toString_date)

lemma score_slot_date:
  "score_slot (rt\<lparr>currentDate := d\<rparr>) scores label weight = score_slot rt scores label weight"
  by (simp add: score_slot_def generateScoreCard_date split: option.splits)

lemma generateCountryCard_date:
  "generateCountryCard (rt\<lparr>currentDate := d\<rparr>) country index =
   generateCountryCard rt country index"
  unfolding generateCountryCard_def Let_def Number_toString_date ..

lemma country_cards_date:
  "country_cards (rt\<lparr>currentDate := d\<rparr>) countryFit = country_cards rt countryFit"
  by (simp add: country_cards_def generateCountryCard_date)

text \<open>
  C8. The report is a function of the input and of the date string of the moment, and the date
  enters it at two places only (Assessment Date and Report Generated): for every input there
  are three texts \<open>a\<close>, \<open>b\<close> and \<open>c\<close> such that, whatever the date \<open>d\<close> is, the report is
  \<open>a @ d @ b @ d @ c\<close>. Two runs on the same input differ in the date string only, and with
  the same date they give the same text.
\<close>

theorem report_is_fixed_up_to_the_date:
  "\<exists>a b c. \<forall>d. generateHTMLContent (rt\<lparr>currentDate := d\<rparr>) r = a @ d @ b @ d @ c"
proof -
  let ?scores = "case Scores r of Some m \<Rightarrow> m | None \<Rightarrow> Map.empty"
  let ?countryFit = "case Country_Fit_Top_3 r of Some cs \<Rightarrow> cs | None \<Rightarrow> []"
  let ?a = "document_head @ page_header @
     or_default (or_field (Student_Name r) (studentName r)) ''Student'' @ after_studentName"
  let ?b = "after_assessment_date @
     Number_toString rt (or_number (Overall_Readiness_Index r) (Num 0)) @ after_overallIndex @
     or_default (Readiness_Level r) ''Needs Assessment'' @ before_scores @
     score_slot rt ?scores ''Financial Planning'' ''25%'' @ between_scores @
     score_slot rt ?scores ''Academic Readiness'' ''20%'' @ between_scores @
     score_slot rt ?scores ''Career Alignment'' ''20%'' @ between_scores @
     score_slot rt ?scores ''Personal & Cultural'' ''15%'' @ between_scores @
     score_slot rt ?scores ''Practical Readiness'' ''10%'' @ between_scores @
     score_slot rt ?scores ''Support System'' ''10%'' @ after_scores @
     or_default (Strengths r) ''No strengths identified'' @ after_strengths @
     or_default (Gaps r) ''No gaps identified'' @ after_gaps @
     or_default (Recommendations r) ''No recommendations provided'' @ after_recommendations @
     (if length ?countryFit > 0
      then country_fit_open @ country_cards rt ?countryFit @ country_fit_close
      else '''') @
     after_country_fit"
  have "\<forall>d. generateHTMLContent (rt\<lparr>currentDate := d\<rparr>) r = ?a @ d @ ?b @ d @ page_close"
    by (simp add: generateHTMLContent_def Let_def Number_toString_date score_slot_date
        country_cards_date)
  then show ?thesis by blast
qed

text \<open>Two reports for Jane Doe, on two days.\<close>

theorem report_is_fixed_up_to_the_date_witness:
  "\<exists>a b c.
     generateHTMLContent (example_runtime\<lparr>currentDate := ''November 2, 2026''\<rparr>) jane =
       a @ ''November 2, 2026'' @ b @ ''November 2, 2026'' @ c \<and>
     generateHTMLContent (example_runtime\<lparr>currentDate := ''November 3, 2026''\<rparr>) jane =
       a @ ''November 3, 2026'' @ b @ ''November 3, 2026'' @ c"
  using report_is_fixed_up_to_the_date [of example_runtime jane] by blast

subsection \<open>The simplified page\<close>

lemma chosen_name:
  "truthy_string a \<or> truthy_string b \<Longrightarrow> \<exists>nm. or_field a b = Some nm \<and> nm \<noteq> []"
  by (auto simp: or_field_def truthy_string_def split: option.splits)

lemma fallback_name:
  assumes "or_field (Student_Name r) (studentName r) = Some nm"
  shows \<open>sublist (''<h2>Student: '' @ nm @ ''</h2>'') (fallback_html rt r)\<close>
  unfolding fallback_html_def assms template_string_def option.case
  by ((rule at_segment, (simp; fail)) | rule skip_segment)+

lemma fallback_index:
  assumes "Overall_Readiness_Index r = Some n" and "truthy_number n"
  shows \<open>sublist (''<p><strong>Overall Readiness Index:</strong> '' @ Number_toString rt n @ ''</p>'')
           (fallback_html rt r)\<close>
  unfolding fallback_html_def assms(1) option.case
  using assms(2)
  by (simp only: if_True) ((rule at_segment, (simp; fail)) | rule skip_segment)+

lemma fallback_index_missing:
  assumes "Overall_Readiness_Index r = None \<or> Overall_Readiness_Index r = Some (Num 0)"
  shows \<open>sublist ''<p><strong>Overall Readiness Index:</strong> N/A</p>'' (fallback_html rt r)\<close>
proof -
  from assms have "(case Overall_Readiness_Index r of
        Some n \<Rightarrow> if truthy_number n then Number_toString rt n else ''N/A''
      | None \<Rightarrow> ''N/A'') = ''N/A''"
    by auto
  then show ?thesis
    unfolding fallback_html_def
    by (simp only:) ((rule at_segment, (simp; fail)) | rule skip_segment)+
qed

lemma fallback_level:
  assumes "Readiness_Level r = Some s" and "s \<noteq> []"
  shows \<open>sublist (''<p><strong>Readiness Level:</strong> '' @ s @ ''</p>'') (fallback_html rt r)\<close>
proof -
  from assms have "or_default (Readiness_Level r) ''Needs Assessment'' = s"
    by (simp add: or_default_def)
  then show ?thesis
    unfolding fallback_html_def
    by (simp only:) ((rule at_segment, (simp; fail)) | rule skip_segment)+
qed

lemma fallback_level_missing:
  assumes "Readiness_Level r = None"
  shows \<open>sublist ''<p><strong>Readiness Level:</strong> Needs Assessment</p>'' (fallback_html rt r)\<close>
  unfolding fallback_html_def or_default_def assms option.case
  by ((rule at_segment, (simp; fail)) | rule skip_segment)+

lemma fallback_strengths:
  assumes "Strengths r = Some s" and "s \<noteq> []"
  shows \<open>sublist (''<h3>Strengths:</h3>\<newline>'' @ ''            <p>'' @ s @ ''</p>'')
           (fallback_html rt r)\<close>
proof -
  from assms have "or_default (Strengths r) ''No strengths identified'' = s"
    by (simp add: or_default_def)
  then show ?thesis
    unfolding fallback_html_def
    by (simp only:) ((rule at_segment, (simp; fail)) | rule skip_segment)+
qed

lemma fallback_recommendations:
  assumes "Recommendations r = Some s" and "s \<noteq> []"
  shows \<open>sublist (''<h3>Recommendations:</h3>\<newline>'' @ ''            <p>'' @ s @ ''</p>'')
           (fallback_html rt r)\<close>
proof -
  from assms have "or_default (Recommendations r) ''No recommendations provided'' = s"
    by (simp add: or_default_def)
  then show ?thesis
    unfolding fallback_html_def
    by (simp only:) ((rule at_segment, (simp; fail)) | rule skip_segment)+
qed

lemma fallback_note:
  \<open>sublist ''<p><em>Note: This is a simplified report. For detailed analysis, please retry PDF generation.</em></p>''
     (fallback_html rt r)\<close>
  unfolding fallback_html_def
  by ((rule at_segment, (simp; fail)) | rule skip_segment)+

lemma decimal_0: "decimal 0 = ''0''"
  by code_simp

lemma Number_toString_0: "Number_toString rt (Num 0) = ''0''"
  by (simp add: safe_integer_def int_toString_def decimal_0)

lemma header_value_ok_append:
  "header_value_ok (xs @ ys) \<longleftrightarrow> header_value_ok xs \<and> header_value_ok ys"
  by (simp add: header_value_ok_def)

lemma header_values_of_the_source:
  \<open>header_value_ok ''text/html''\<close>
  \<open>header_value_ok ''application/pdf''\<close>
  \<open>header_value_ok ''attachment; filename="study-abroad-report-''\<close>
  \<open>header_value_ok ''attachment; filename="psychometric-report-''\<close>
  \<open>header_value_ok ''.html"''\<close>
  \<open>header_value_ok ''.pdf"''\<close>
  by code_simp+

text \<open>
  The answer of the handler when \<^verbatim>\<open>page.pdf\<close> throws and the slug of the name is accepted as
  part of a header value: status 200, \<^verbatim>\<open>text/html\<close>, an attachment, and the simplified page.
\<close>

lemma fallback_answer:
  assumes "or_field (Student_Name r) (studentName r) = Some nm" and "nm \<noteq> []"
    and "launch_ok br" and "newPage_ok br" and "setContent_ok br" and "pdf_result br = None"
    and "header_value_ok (toLowerCase rt (replace_white_space nm))"
  shows \<open>fst (POST rt br (JObject r)) =
     \<lparr>status = 200,
      headers =
        [(''Content-Type'', ''text/html''),
         (''Content-Disposition'',
          ''attachment; filename="study-abroad-report-'' @ toLowerCase rt (replace_white_space nm) @
          ''.html"'')],
      body = Html (fallback_html rt r)\<rparr>\<close>
proof -
  from assms(1,2) have "truthy_string (Student_Name r) \<or> truthy_string (studentName r)"
    by (auto simp: or_field_def truthy_string_def split: if_splits)
  then have "POST rt br (JObject r) = export rt br r"
    by (auto simp: POST_def)
  then show ?thesis
    using assms
    by (simp add: export_def Let_def file_slug_def new_Response_def header_value_ok_append
        header_values_of_the_source del: append.simps)
qed

text \<open>The same when the slug is not accepted: the constructor throws, the answer is 500.\<close>

lemma fallback_refused:
  assumes "or_field (Student_Name r) (studentName r) = Some nm" and "nm \<noteq> []"
    and "launch_ok br" and "newPage_ok br" and "setContent_ok br" and "pdf_result br = None"
    and "\<not> header_value_ok (toLowerCase rt (replace_white_space nm))"
  shows "fst (POST rt br (JObject r)) = catch_all"
proof -
  from assms(1,2) have "truthy_string (Student_Name r) \<or> truthy_string (studentName r)"
    by (auto simp: or_field_def truthy_string_def split: if_splits)
  then have "POST rt br (JObject r) = export rt br r"
    by (auto simp: POST_def)
  then show ?thesis
    using assms
    by (simp add: export_def Let_def file_slug_def new_Response_def header_value_ok_append
        header_values_of_the_source del: append.simps)
qed

text \<open>The slug of the name Nihon is the name itself, and no header value can hold it.\<close>

lemma nihon_slug:
  "or_field (Student_Name nihon_body) (studentName nihon_body) = Some nihon"
  "nihon \<noteq> []"
  "toLowerCase example_runtime (replace_white_space nihon) = nihon"
  "\<not> header_value_ok nihon"
  by code_simp+

text \<open>
  C4 does not hold of the code. For the student name \<^verbatim>\<open>U+65E5 U+672C\<close>, and for every name
  whose slug has a character above U+00FF or a NUL, the file name cannot be put in the
  \<^verbatim>\<open>Content-Disposition\<close> header: when \<^verbatim>\<open>page.pdf\<close> throws, \<^verbatim>\<open>new NextResponse\<close> throws in turn
  and the outer \<^verbatim>\<open>catch\<close> answers 500 with \<^verbatim>\<open>{error: "Failed to generate PDF"}\<close>, not 200 with
  the simplified page. Besides, when the overall readiness index is 0 the simplified page
  does not show it: its line reads \<^verbatim>\<open>N/A\<close>, and the page is the one of a body without index.
\<close>

theorem non_latin_name_gets_no_simplified_page:
  \<open>fst (POST example_runtime (printing\<lparr>pdf_result := None\<rparr>) (JObject nihon_body)) =
     json_error 500 ''Failed to generate PDF'' \<and>
   status (fst (POST example_runtime (printing\<lparr>pdf_result := None\<rparr>) (JObject nihon_body))) \<noteq> 200 \<and>
   fallback_html example_runtime (jane\<lparr>Overall_Readiness_Index := Some (Num 0)\<rparr>) =
     fallback_html example_runtime jane \<and>
   sublist ''<p><strong>Overall Readiness Index:</strong> N/A</p>''
     (fallback_html example_runtime (jane\<lparr>Overall_Readiness_Index := Some (Num 0)\<rparr>))\<close>
proof -
  let ?failing = "printing\<lparr>pdf_result := None\<rparr>"
  have browser: "launch_ok ?failing" "newPage_ok ?failing" "setContent_ok ?failing"
    "pdf_result ?failing = None"
    by (simp_all add: printing_def)
  have refused: "\<not> header_value_ok (toLowerCase example_runtime (replace_white_space nihon))"
    by (simp only: nihon_slug not_False_eq_True)
  have answer: "fst (POST example_runtime ?failing (JObject nihon_body)) =
      json_error 500 ''Failed to generate PDF''"
    using fallback_refused [OF nihon_slug(1,2) browser refused] by (simp only: catch_all_def)
  then have "status (fst (POST example_runtime ?failing (JObject nihon_body))) \<noteq> 200"
    by (simp add: json_error_def)
  moreover have "fallback_html example_runtime (jane\<lparr>Overall_Readiness_Index := Some (Num 0)\<rparr>) =
      fallback_html example_runtime jane"
    by (simp add: fallback_html_def jane_def no_fields_def)
  moreover have "sublist ''<p><strong>Overall Readiness Index:</strong> N/A</p>''
      (fallback_html example_runtime (jane\<lparr>Overall_Readiness_Index := Some (Num 0)\<rparr>))"
    by (rule fallback_index_missing) simp
  ultimately show ?thesis
    using answer by (intro conjI)
qed

subsection \<open>Defaults of the report and of the simplified page\<close>

lemma page_index_zero:
  assumes "Overall_Readiness_Index r = None \<or> Overall_Readiness_Index r = Some (Num 0)"
  shows \<open>sublist (''<div class="overall-score">\<newline>'' @ ''                    <h3>0%</h3>'')
           (generateHTMLContent rt r)\<close>
proof -
  obtain a where a:
    \<open>after_assessment_date = a @ ''<div class="overall-score">\<newline>'' @ ''                    <h3>''\<close>
    using after_assessment_date_tail unfolding suffix_def by blast
  obtain b where b: \<open>after_overallIndex = ''%</h3>'' @ b\<close>
    using after_overallIndex_head unfolding prefix_def by blast
  from assms have "or_number (Overall_Readiness_Index r) (Num 0) = Num 0"
    by (auto simp: or_number_def)
  then have zero: "Number_toString rt (or_number (Overall_Readiness_Index r) (Num 0)) = ''0''"
    by (simp only: Number_toString_0)
  show ?thesis
    unfolding generateHTMLContent_def Let_def a b zero
    by (simp only: append_assoc)
       ((rule at_segment, (simp; fail)) | rule skip_segment)+
qed

lemma page_level_missing:
  assumes "Readiness_Level r = None"
  shows \<open>sublist ''<p>Overall Readiness Index: Needs Assessment</p>'' (generateHTMLContent rt r)\<close>
proof -
  obtain a where a: \<open>after_overallIndex = a @ ''<p>Overall Readiness Index: ''\<close>
    using after_overallIndex_tail unfolding suffix_def by blast
  obtain b where b: \<open>before_scores = ''</p>'' @ b\<close>
    using before_scores_head unfolding prefix_def by blast
  show ?thesis
    unfolding generateHTMLContent_def Let_def a b or_default_def assms option.case
    by (simp only: append_assoc)
       ((rule at_segment, (simp; fail)) | rule skip_segment)+
qed

text \<open>
  C10. The report and the simplified page treat a missing overall readiness index
  differently: when it is absent, or is 0, the report shows \<^verbatim>\<open>0%\<close> and the simplified page
  shows \<^verbatim>\<open>N/A\<close>. Both show \<^verbatim>\<open>Needs Assessment\<close> for a missing readiness level.
\<close>

theorem missing_index_and_level:
  \<open>(Overall_Readiness_Index r = None \<or> Overall_Readiness_Index r = Some (Num 0) \<longrightarrow>
      sublist (''<div class="overall-score">\<newline>'' @ ''                    <h3>0%</h3>'')
        (generateHTMLContent rt r) \<and>
      sublist ''<p><strong>Overall Readiness Index:</strong> N/A</p>'' (fallback_html rt r)) \<and>
   (Readiness_Level r = None \<longrightarrow>
      sublist ''<p>Overall Readiness Index: Needs Assessment</p>'' (generateHTMLContent rt r) \<and>
      sublist ''<p><strong>Readiness Level:</strong> Needs Assessment</p>'' (fallback_html rt r))\<close>
  by (intro conjI impI page_index_zero fallback_index_missing page_level_missing
        fallback_level_missing)

text \<open>Jane Doe without index and level, and Jane Doe with the index 0.\<close>

theorem missing_index_and_level_witness:
  \<open>sublist (''<div class="overall-score">\<newline>'' @ ''                    <h3>0%</h3>'')
     (generateHTMLContent example_runtime jane) \<and>
   sublist ''<p><strong>Overall Readiness Index:</strong> N/A</p>'' (fallback_html example_runtime jane) \<and>
   sublist ''<p>Overall Readiness Index: Needs Assessment</p>''
     (generateHTMLContent example_runtime jane) \<and>
   sublist ''<p><strong>Readiness Level:</strong> Needs Assessment</p>''
     (fallback_html example_runtime jane) \<and>
   sublist (''<div class="overall-score">\<newline>'' @ ''                    <h3>0%</h3>'')
     (generateHTMLContent example_runtime (jane\<lparr>Overall_Readiness_Index := Some (Num 0)\<rparr>)) \<and>
   sublist ''<p><strong>Overall Readiness Index:</strong> N/A</p>''
     (fallback_html example_runtime (jane\<lparr>Overall_Readiness_Index := Some (Num 0)\<rparr>))\<close>
proof -
  have absent: "Overall_Readiness_Index jane = None" "Readiness_Level jane = None"
    by (simp_all add: jane_def no_fields_def)
  have zero: "Overall_Readiness_Index (jane\<lparr>Overall_Readiness_Index := Some (Num 0)\<rparr>) = Some (Num 0)"
    by simp
  from missing_index_and_level [of jane example_runtime] absent
    missing_index_and_level [of "jane\<lparr>Overall_Readiness_Index := Some (Num 0)\<rparr>" example_runtime]
    zero
  show ?thesis by blast
qed

subsection \<open>The file name of the download\<close>

lemma ascii_space_cases:
  assumes "ascii_space c"
  shows "c \<in> {CHR 0x09, CHR 0x0A, CHR 0x0B, CHR 0x0C, CHR 0x0D, CHR 0x20}"
proof -
  from assms have "(of_char c :: nat) \<in> {9, 10, 11, 12, 13, 32}"
    by (auto simp: ascii_space_def Let_def)
  then have "(of_char c :: nat) \<in> of_char ` {CHR 0x09, CHR 0x0A, CHR 0x0B, CHR 0x0C, CHR 0x0D, CHR 0x20}"
    by simp
  then show ?thesis
    by (simp only: inj_image_mem_iff [OF inj_of_char])
qed

lemma ws_len_space:
  assumes "ascii_space c"
  shows "ws_len (c # cs) = 1"
proof -
  from ascii_space_cases [OF assms]
  consider "c = CHR 0x09" | "c = CHR 0x0A" | "c = CHR 0x0B" | "c = CHR 0x0C" | "c = CHR 0x0D"
    | "c = CHR 0x20"
    by blast
  then show ?thesis
    by cases (simp_all add: ws_len_def white_space_def)
qed

lemma ws_len_other:
  assumes "(of_char c :: nat) < 128" and "\<not> ascii_space c"
  shows "ws_len (c # cs) = 0"
proof -
  have heads: "list_all (\<lambda>w. w \<noteq> [] \<and> (ascii_space (hd w) \<or> 128 \<le> (of_char (hd w) :: nat)))
      white_space"
    by code_simp
  have "\<not> prefix w (c # cs)" if "w \<in> set white_space" for w
  proof (cases w)
    case Nil
    with heads that show ?thesis by (auto simp: list_all_iff)
  next
    case (Cons d ds)
    with heads that have "ascii_space d \<or> 128 \<le> (of_char d :: nat)"
      by (auto simp: list_all_iff)
    with assms have "d \<noteq> c" by auto
    with Cons show ?thesis by simp
  qed
  then have "find (\<lambda>w. prefix w (c # cs)) white_space = None"
    by (simp add: find_None_iff)
  then show ?thesis by (simp add: ws_len_def)
qed

lemma ws_len_ascii:
  assumes "(of_char c :: nat) < 128"
  shows "ws_len (c # cs) = (if ascii_space c then 1 else 0)"
  using assms by (simp add: ws_len_space ws_len_other)


lemma ws_len_Nil: "ws_len [] = 0"
  by (simp add: ws_len_def white_space_def)

lemma skip_ascii: "ascii s \<Longrightarrow> skip_white_space s = dropWhile ascii_space s"
proof (induction s)
  case Nil
  show ?case by (simp add: skip_white_space.simps [of "[]"] ws_len_Nil)
next
  case (Cons c cs)
  then have c: "(of_char c :: nat) < 128" and cs: "ascii cs"
    by (simp_all add: ascii_def)
  show ?case
    using Cons.IH [OF cs] ws_len_ascii [OF c, of cs]
    by (simp add: skip_white_space.simps [of "c # cs"])
qed

lemma ascii_space_lower [simp]: "ascii_space (lower_char c) = ascii_space c"
  by (auto simp: ascii_space_def lower_char_def Let_def)

lemma lower_hyphen [simp]: "lower_char CHR ''-'' = CHR ''-''"
  by (simp add: lower_char_def)

lemma ascii_dropWhile: "ascii s \<Longrightarrow> ascii (dropWhile P s)"
  unfolding ascii_def list_all_iff using set_dropWhileD by fast

lemma render_space:
  "ascii_space x \<Longrightarrow>
   concat (map hyphen_for_space (runs ascii_space (x # xs))) =
   CHR ''-'' # concat (map hyphen_for_space (runs ascii_space (dropWhile ascii_space xs)))"
  by (simp add: hyphen_for_space_def runs.simps cong: if_cong)

lemma render_other:
  "\<not> ascii_space x \<Longrightarrow>
   concat (map hyphen_for_space (runs ascii_space (x # xs))) =
   x # concat (map hyphen_for_space (runs ascii_space xs))"
proof (cases xs)
  case Nil
  assume "\<not> ascii_space x"
  with Nil show ?thesis by (simp add: hyphen_for_space_def runs.simps)
next
  case (Cons y ys)
  assume "\<not> ascii_space x"
  with Cons show ?thesis
    by (cases "ascii_space y") (simp_all add: hyphen_for_space_def runs.simps)
qed

lemma slug_refines:
  "ascii s \<Longrightarrow>
   ascii (replace_white_space s) \<and> map lower_char (replace_white_space s) = slugify_spec s"
proof (induction s rule: length_induct)
  case (1 s)
  show ?case
  proof (cases s)
    case Nil
    then show ?thesis by (simp add: slugify_spec_def ascii_def runs.simps)
  next
    case (Cons c cs)
    with "1.prems" have c: "(of_char c :: nat) < 128" and cs: "ascii cs"
      by (simp_all add: ascii_def)
    show ?thesis
    proof (cases "ascii_space c")
      case True
      let ?rest = "dropWhile ascii_space cs"
      have skip: "skip_white_space (c # cs) = ?rest"
        using skip_ascii [OF "1.prems"] Cons True by simp
      have "length ?rest < length s"
        using Cons length_dropWhile_le [of ascii_space cs] by simp
      moreover have "ascii ?rest"
        using cs by (rule ascii_dropWhile)
      ultimately have IH: "ascii (replace_white_space ?rest)"
        "map lower_char (replace_white_space ?rest) = slugify_spec ?rest"
        using "1.IH" by blast+
      have rep: "replace_white_space s = CHR ''-'' # replace_white_space ?rest"
        using Cons True ws_len_ascii [OF c, of cs] skip by simp
      have "slugify_spec s = CHR ''-'' # slugify_spec ?rest"
        using Cons True
        by (simp add: slugify_spec_def render_space dropWhile_map comp_def)
      with rep IH show ?thesis by (simp add: ascii_def)
    next
      case False
      have "length cs < length s" using Cons by simp
      with cs have IH: "ascii (replace_white_space cs)"
        "map lower_char (replace_white_space cs) = slugify_spec cs"
        using "1.IH" by blast+
      have rep: "replace_white_space s = c # replace_white_space cs"
        using Cons False ws_len_ascii [OF c, of cs] by simp
      have "slugify_spec s = lower_char c # slugify_spec cs"
        using Cons False by (simp add: slugify_spec_def render_other)
      with rep IH c show ?thesis by (simp add: ascii_def)
    qed
  qed
qed

lemma slug_is_slugify_spec: "ascii s \<Longrightarrow> toLowerCase rt (replace_white_space s) = slugify_spec s"
  using slug_refines [of s] by (simp add: toLowerCase_def)

text \<open>
  The answer of the handler when \<^verbatim>\<open>page.pdf\<close> returns a buffer that is not empty and the header
  values are accepted.
\<close>

lemma pdf_answer:
  assumes "or_field (Student_Name r) (studentName r) = Some nm" and "nm \<noteq> []"
    and "launch_ok br" and "newPage_ok br" and "setContent_ok br"
    and "pdf_result br = Some pdfBuffer" and "pdfBuffer \<noteq> []"
    and "header_value_ok (toLowerCase rt (replace_white_space nm))"
    and "header_value_ok (Number_toString rt (Num (of_nat (length pdfBuffer))))"
  shows \<open>fst (POST rt br (JObject r)) =
     \<lparr>status = 200,
      headers =
        [(''Content-Type'', ''application/pdf''),
         (''Content-Length'', Number_toString rt (Num (of_nat (length pdfBuffer)))),
         (''Content-Disposition'',
          ''attachment; filename="psychometric-report-'' @ toLowerCase rt (replace_white_space nm) @
          ''.pdf"'')],
      body = Pdf pdfBuffer\<rparr>\<close>
proof -
  from assms(1,2) have "truthy_string (Student_Name r) \<or> truthy_string (studentName r)"
    by (auto simp: or_field_def truthy_string_def split: if_splits)
  then have "POST rt br (JObject r) = export rt br r"
    by (auto simp: POST_def)
  then show ?thesis
    using assms
    by (simp add: export_def Let_def file_slug_def new_Response_def header_value_ok_append
        header_values_of_the_source del: append.simps)
qed

lemma pdf_refused:
  assumes "or_field (Student_Name r) (studentName r) = Some nm" and "nm \<noteq> []"
    and "launch_ok br" and "newPage_ok br" and "setContent_ok br"
    and "pdf_result br = Some pdfBuffer" and "pdfBuffer \<noteq> []"
    and "\<not> header_value_ok (toLowerCase rt (replace_white_space nm))"
  shows "fst (POST rt br (JObject r)) = catch_all"
proof -
  from assms(1,2) have "truthy_string (Student_Name r) \<or> truthy_string (studentName r)"
    by (auto simp: or_field_def truthy_string_def split: if_splits)
  then have "POST rt br (JObject r) = export rt br r"
    by (auto simp: POST_def)
  then show ?thesis
    using assms
    by (simp add: export_def Let_def file_slug_def new_Response_def header_value_ok_append
        header_values_of_the_source del: append.simps)
qed

text \<open>The file names of Jane Doe, where the slug is accepted.\<close>

lemma jane_doe_file_names:
  \<open>toLowerCase rt (replace_white_space ''Jane Doe'') = ''jane-doe''\<close>
  \<open>map_of (headers (fst (POST example_runtime printing (JObject jane)))) ''Content-Disposition'' =
     Some ''attachment; filename="psychometric-report-jane-doe.pdf"''\<close>
  \<open>map_of (headers (fst (POST example_runtime (printing\<lparr>pdf_result := None\<rparr>) (JObject jane))))
     ''Content-Disposition'' =
     Some ''attachment; filename="study-abroad-report-jane-doe.html"''\<close>
proof -
  have "ascii ''Jane Doe''" by code_simp
  moreover have "slugify_spec ''Jane Doe'' = ''jane-doe''" by code_simp
  ultimately show slug: "toLowerCase rt (replace_white_space ''Jane Doe'') = ''jane-doe''" for rt
    by (simp only: slug_is_slugify_spec)
  have chosen: "or_field (Student_Name jane) (studentName jane) = Some ''Jane Doe''"
    by (simp add: jane_def no_fields_def or_field_def truthy_string_def)
  have accepted: "header_value_ok (toLowerCase example_runtime (replace_white_space ''Jane Doe''))"
    unfolding slug by code_simp
  have size: "header_value_ok (Number_toString example_runtime (Num (of_nat (length [0x25, 0x50, 0x44, 0x46 :: 8 word]))))"
    by code_simp
  show \<open>map_of (headers (fst (POST example_runtime printing (JObject jane)))) ''Content-Disposition'' =
     Some ''attachment; filename="psychometric-report-jane-doe.pdf"''\<close>
    using pdf_answer [OF chosen _ _ _ _ _ _ accepted size] slug [of example_runtime]
    by (simp add: printing_def)
  show \<open>map_of (headers (fst (POST example_runtime (printing\<lparr>pdf_result := None\<rparr>) (JObject jane))))
     ''Content-Disposition'' =
     Some ''attachment; filename="study-abroad-report-jane-doe.html"''\<close>
    using fallback_answer [OF chosen _ _ _ _ _ accepted] slug [of example_runtime]
    by (simp add: printing_def)
qed

text \<open>
  C9 does not hold of the code. For the student name \<^verbatim>\<open>U+65E5 U+672C\<close>, and for every name
  whose slug has a character above U+00FF or a NUL, the slug cannot be put in the
  \<^verbatim>\<open>Content-Disposition\<close> header: the constructor of the response throws in the PDF case and
  in the case of the simplified page, and the answer is 500 with
  \<^verbatim>\<open>{error: "Failed to generate PDF"}\<close> and without any file name.
\<close>

theorem non_latin_name_gets_no_file_name:
  \<open>file_slug example_runtime nihon_body = Some nihon \<and>
   fst (POST example_runtime printing (JObject nihon_body)) =
     json_error 500 ''Failed to generate PDF'' \<and>
   fst (POST example_runtime (printing\<lparr>pdf_result := None\<rparr>) (JObject nihon_body)) =
     json_error 500 ''Failed to generate PDF'' \<and>
   map_of (headers (fst (POST example_runtime printing (JObject nihon_body))))
     ''Content-Disposition'' = None \<and>
   map_of (headers (fst (POST example_runtime (printing\<lparr>pdf_result := None\<rparr>) (JObject nihon_body))))
     ''Content-Disposition'' = None\<close>
proof -
  let ?failing = "printing\<lparr>pdf_result := None\<rparr>"
  have working: "launch_ok printing" "newPage_ok printing" "setContent_ok printing"
    "pdf_result printing = Some [0x25, 0x50, 0x44, 0x46]" "[0x25, 0x50, 0x44, 0x46] \<noteq> ([] :: buffer)"
    by (simp_all add: printing_def)
  have failing: "launch_ok ?failing" "newPage_ok ?failing" "setContent_ok ?failing"
    "pdf_result ?failing = None"
    by (simp_all add: printing_def)
  have refused: "\<not> header_value_ok (toLowerCase example_runtime (replace_white_space nihon))"
    by (simp only: nihon_slug not_False_eq_True)
  have slug: "file_slug example_runtime nihon_body = Some nihon"
    by (simp add: file_slug_def nihon_slug)
  have pdf: "fst (POST example_runtime printing (JObject nihon_body)) =
      json_error 500 ''Failed to generate PDF''"
    using pdf_refused [OF nihon_slug(1,2) working refused] by (simp only: catch_all_def)
  have html: "fst (POST example_runtime ?failing (JObject nihon_body)) =
      json_error 500 ''Failed to generate PDF''"
    using fallback_refused [OF nihon_slug(1,2) failing refused] by (simp only: catch_all_def)
  from slug pdf html show ?thesis
    by (simp add: json_error_def)
qed

end
